theory Spec2Isabelle
  imports Main "HOL-Library.Word" "HOL-Library.AList"
begin

unbundle bit_operations_syntax

section \<open>Python values and exceptions\<close>

text \<open>
  The decoded payload of a data object is a dynamically typed Python value
  (\<^verbatim>\<open>self.decoded\<close> is \<^verbatim>\<open>None\<close>, a dict, or whatever an earlier call left there).
  A dict is an association list in insertion order; its keys are strings, as in the
  source. A \<^verbatim>\<open>ValueError\<close> instance that is handed around as an ordinary object
  (returned, not raised) is the value \<open>VValueError\<close>; a raised exception is an \<open>exn\<close>.
\<close>

type_synonym byte = "8 word"

datatype pyval =
    VNone
  | VStr string
  | VInt int
  | VBytes "byte list"
  | VList "pyval list"
  | VDict "(string \<times> pyval) list"
  | VValueError string
  | VType string

datatype exn =
    TypeError
  | NameError
  | KeyError
  | AssertionError
  | ValueError string
  | OtherError string

text \<open>\<^verbatim>\<open>obj[key] = v\<close> with a string key: only a dict supports it.\<close>

fun setitem :: "pyval \<Rightarrow> string \<Rightarrow> pyval \<Rightarrow> exn + pyval" where
  "setitem (VDict d) k v = Inr (VDict (AList.update k v d))"
| "setitem _ k v = Inl TypeError"

text \<open>\<^verbatim>\<open>obj[key]\<close> with a string key.\<close>

fun getitem :: "pyval \<Rightarrow> string \<Rightarrow> exn + pyval" where
  "getitem (VDict d) k = (case map_of d k of None \<Rightarrow> Inl KeyError | Some v \<Rightarrow> Inr v)"
| "getitem _ k = Inl TypeError"

fun starts_with :: "string \<Rightarrow> string \<Rightarrow> bool" where
  "starts_with [] s = True"
| "starts_with (c # cs) [] = False"
| "starts_with (c # cs) (x # xs) = (c = x \<and> starts_with cs xs)"

fun is_substring :: "string \<Rightarrow> string \<Rightarrow> bool" where
  "is_substring k [] = (k = [])"
| "is_substring k (x # xs) = (starts_with k (x # xs) \<or> is_substring k xs)"

text \<open>\<^verbatim>\<open>key in obj\<close> with a string key: dict keys, list elements, substring of a str.\<close>

fun contains :: "pyval \<Rightarrow> string \<Rightarrow> exn + bool" where
  "contains (VDict d) k = Inr (k \<in> set (map fst d))"
| "contains (VList l) k = Inr (VStr k \<in> set l)"
| "contains (VStr s) k = Inr (is_substring k s)"
| "contains _ k = Inl TypeError"

text \<open>\<^verbatim>\<open>for f in obj\<close>: the values the iteration yields.\<close>

fun iter_values :: "pyval \<Rightarrow> exn + pyval list" where
  "iter_values (VList l) = Inr l"
| "iter_values (VDict d) = Inr (map (VStr \<circ> fst) d)"
| "iter_values (VStr s) = Inr (map (\<lambda>c. VStr [c]) s)"
| "iter_values (VBytes b) = Inr (map (\<lambda>x. VInt (uint x)) b)"
| "iter_values _ = Inl TypeError"

text \<open>
  \<^verbatim>\<open>x += y\<close> where \<^verbatim>\<open>x\<close> is a list: \<^verbatim>\<open>list.__iadd__\<close> extends the list by the
  values \<^verbatim>\<open>y\<close> iterates over (for a dict: its keys). The source applies \<^verbatim>\<open>+=\<close>
  only to the entry it has just set to a list.
\<close>

fun iadd :: "pyval \<Rightarrow> pyval \<Rightarrow> exn + pyval" where
  "iadd (VList l) y = (case iter_values y of Inl e \<Rightarrow> Inl e | Inr ys \<Rightarrow> Inr (VList (l @ ys)))"
| "iadd _ y = Inl TypeError"

subsection \<open>String formatting\<close>

definition hexdigit :: "nat \<Rightarrow> char" where
  "hexdigit n = ''0123456789abcdef'' ! (n mod 16)"

fun hex_of_nat :: "nat \<Rightarrow> string" where
  "hex_of_nat n = (if n < 16 then [hexdigit n] else hex_of_nat (n div 16) @ [hexdigit (n mod 16)])"

declare hex_of_nat.simps [simp del]

text \<open>Python's \<^verbatim>\<open>'%02x' % n\<close> for \<open>n \<ge> 0\<close>: lower-case hex, zero-padded to two digits.\<close>

definition fmt_02x :: "nat \<Rightarrow> string" where
  "fmt_02x n = (let s = hex_of_nat n in replicate (2 - length s) (CHR ''0'') @ s)"

fun dec_of_nat :: "nat \<Rightarrow> string" where
  "dec_of_nat n = (if n < 10 then [hexdigit n] else dec_of_nat (n div 10) @ [hexdigit (n mod 10)])"

declare dec_of_nat.simps [simp del]

section \<open>ARA-M: the APDU access rule data object (pySim/ara\_m.py)\<close>

text \<open>
  \<^verbatim>\<open>ApduArDO._from_bytes(self, do)\<close>. The state is \<^verbatim>\<open>self.decoded\<close>; the result is
  \<open>None\<close> when the call never returns, else the outcome (a raised exception or the
  returned value) with \<^verbatim>\<open>self.decoded\<close> as the call leaves it.
  \<^verbatim>\<open>b2h\<close> (pySim.utils) is not part of the sources at hand and is a parameter.

  The filter loop of the source reads
  \<^verbatim>\<open>
    offset = 0
    while offset < len(do):
        self.decoded['apdu_filter'] += {'header': b2h(do[offset:offset+4]),
                                        'mask': b2h(do[offset+4:offset+8])}
    self.decoded = res
    return res
  \<close>
  The body never assigns \<^verbatim>\<open>offset\<close>, and \<^verbatim>\<open>res\<close> is bound nowhere in the function
  or the module, so the statement after the loop raises \<^verbatim>\<open>NameError\<close>.
\<close>

definition py_slice :: "'a list \<Rightarrow> nat \<Rightarrow> nat \<Rightarrow> 'a list" where
  "py_slice xs i j = take (j - i) (drop i xs)"

partial_function (option) apdu_filter_loop ::
  "(byte list \<Rightarrow> string) \<Rightarrow> byte list \<Rightarrow> nat \<Rightarrow> pyval \<Rightarrow> ((exn + unit) \<times> pyval) option" where
  "apdu_filter_loop b2h dob offset decoded =
     (if offset < length dob then
        (case getitem decoded ''apdu_filter'' of
           Inl e \<Rightarrow> Some (Inl e, decoded)
         | Inr cur \<Rightarrow>
            (case iadd cur (VDict [(''header'', VStr (b2h (py_slice dob offset (offset + 4)))),
                                   (''mask'', VStr (b2h (py_slice dob (offset + 4) (offset + 8))))]) of
               Inl e \<Rightarrow> Some (Inl e, decoded)
             | Inr new \<Rightarrow>
                (case setitem decoded ''apdu_filter'' new of
                   Inl e \<Rightarrow> Some (Inl e, decoded)
                 | Inr decoded' \<Rightarrow> apdu_filter_loop b2h dob offset decoded')))
      else Some (Inr (), decoded))"

definition ApduArDO_from_bytes ::
  "(byte list \<Rightarrow> string) \<Rightarrow> pyval \<Rightarrow> byte list \<Rightarrow> ((exn + pyval) \<times> pyval) option" where
  "ApduArDO_from_bytes b2h decoded dob =
     (if length dob = 1 then
        (if dob ! 0 = 0x00 then
           (let decoded' = VDict [(''generic_access_rule'', VStr ''never'')]
            in Some (Inr decoded', decoded'))
         else if dob ! 0 = 0x01 then
           (let decoded' = VDict [(''generic_access_rule'', VStr ''always'')]
            in Some (Inr decoded', decoded'))
         else Some (Inr (VValueError ''Invalid 1-byte generic APDU access rule''), decoded))
      else
        (if length dob mod 8 \<noteq> 0 then
           Some (Inr (VValueError (''Invalid non-modulo-8 length of APDU filter: ''
                                    @ dec_of_nat (length dob))), decoded)
         else
           (case setitem decoded ''apdu_filter'' (VList []) of
              Inl e \<Rightarrow> Some (Inl e, decoded)
            | Inr decoded1 \<Rightarrow>
               (case apdu_filter_loop b2h dob 0 decoded1 of
                  None \<Rightarrow> None
                | Some (Inl e, decoded2) \<Rightarrow> Some (Inl e, decoded2)
                | Some (Inr u, decoded2) \<Rightarrow> Some (Inl NameError, decoded2)))))"

text \<open>
  \<^verbatim>\<open>ApduArDO._to_bytes(self)\<close>: reads \<^verbatim>\<open>self.decoded\<close> and changes nothing.
  \<^verbatim>\<open>h2b\<close> (pySim.utils, \<^verbatim>\<open>bytes.fromhex\<close>) is a parameter; applied to anything but
  a str it raises \<^verbatim>\<open>TypeError\<close>.
\<close>

definition h2b_val :: "(string \<Rightarrow> exn + byte list) \<Rightarrow> pyval \<Rightarrow> exn + byte list" where
  "h2b_val h2b v = (case v of VStr s \<Rightarrow> h2b s | _ \<Rightarrow> Inl TypeError)"

text \<open>
  The body of \<^verbatim>\<open>for f in filters\<close>, folded over the values of the iteration with the
  accumulator \<^verbatim>\<open>res\<close>; \<open>Inr (Inl v)\<close> is an early \<^verbatim>\<open>return v\<close>.
\<close>

fun to_bytes_filters ::
  "(string \<Rightarrow> exn + byte list) \<Rightarrow> pyval list \<Rightarrow> byte list \<Rightarrow> exn + pyval" where
  "to_bytes_filters h2b [] res = Inr (VBytes res)"
| "to_bytes_filters h2b (f # fs) res =
     (case contains f ''header'' of
        Inl e \<Rightarrow> Inl e
      | Inr has_header \<Rightarrow>
         (case (if has_header then contains f ''mask'' else Inr False) of
            Inl e \<Rightarrow> Inl e
          | Inr has_both \<Rightarrow>
             if \<not> has_both then Inr (VValueError ''APDU filter must contain header and mask'')
             else
               (case getitem f ''header'' of
                  Inl e \<Rightarrow> Inl e
                | Inr hv \<Rightarrow>
                   (case h2b_val h2b hv of
                      Inl e \<Rightarrow> Inl e
                    | Inr header_b \<Rightarrow>
                       (case getitem f ''mask'' of
                          Inl e \<Rightarrow> Inl e
                        | Inr mv \<Rightarrow>
                           (case h2b_val h2b mv of
                              Inl e \<Rightarrow> Inl e
                            | Inr mask_b \<Rightarrow>
                               if length header_b \<noteq> 4 \<or> length mask_b \<noteq> 4
                               then Inr (VValueError ''APDU filter header and mask must each be 4 bytes'')
                               else to_bytes_filters h2b fs (res @ header_b @ mask_b)))))))"

definition ApduArDO_to_bytes :: "(string \<Rightarrow> exn + byte list) \<Rightarrow> pyval \<Rightarrow> exn + pyval" where
  "ApduArDO_to_bytes h2b decoded =
     (case contains decoded ''generic_access_rule'' of
        Inl e \<Rightarrow> Inl e
      | Inr True \<Rightarrow>
         (case getitem decoded ''generic_access_rule'' of
            Inl e \<Rightarrow> Inl e
          | Inr r \<Rightarrow>
             if r = VStr ''never'' then Inr (VBytes [0x00])
             else if r = VStr ''always'' then Inr (VBytes [0x01])
             else Inr (VValueError ''Invalid 1-byte generic APDU access rule''))
      | Inr False \<Rightarrow>
         (case contains decoded ''apdu_filter'' of
            Inl e \<Rightarrow> Inl e
          | Inr False \<Rightarrow> Inr (VValueError ''Invalid APDU AR DO'')
          | Inr True \<Rightarrow>
             (case getitem decoded ''apdu_filter'' of
                Inl e \<Rightarrow> Inl e
              | Inr filters \<Rightarrow>
                 (case iter_values filters of
                    Inl e \<Rightarrow> Inl e
                  | Inr fs \<Rightarrow> to_bytes_filters h2b fs []))))"

text \<open>
  The invariant of the filter loop: \<^verbatim>\<open>self.decoded\<close> is a dict whose
  \<^verbatim>\<open>'apdu_filter'\<close> entry is a list.
\<close>

fun is_list :: "pyval \<Rightarrow> bool" where
  "is_list (VList l) = True"
| "is_list _ = False"

fun has_filter_list :: "pyval \<Rightarrow> bool" where
  "has_filter_list (VDict d) =
     (case map_of d ''apdu_filter'' of Some v \<Rightarrow> is_list v | None \<Rightarrow> False)"
| "has_filter_list _ = False"

subsection \<open>ADF\_ARAM.xceive\_apdu\_tlv\<close>

text \<open>
  \<^verbatim>\<open>xceive_apdu_tlv(tp, hdr, cmd_do, resp_cls, exp_sw)\<close>. What the function returns is
  one of four things: a \<^verbatim>\<open>ValueError\<close> object, the response data object, the raw
  response data, or \<^verbatim>\<open>None\<close>. The collaborators that are not part of the sources at
  hand are parameters: \<open>to_ie\<close> (the encoder of the command data object),
  \<open>b2h\<close> and \<open>h2b\<close> (pySim.utils), \<open>send_apdu_checksw\<close> (the transport, with its
  state \<open>tp\<close>; it raises when the status word is not the expected one) and, when a
  response class is given, its \<^verbatim>\<open>from_tlv\<close>.
\<close>

datatype 'r xceive_ret =
    RetValueError string
  | RetRespDo 'r
  | RetData string
  | RetNone

definition xceive_send ::
  "(byte list \<Rightarrow> string) \<Rightarrow> (string \<Rightarrow> exn + byte list)
   \<Rightarrow> ('tp \<Rightarrow> string \<Rightarrow> string \<Rightarrow> (exn + string \<times> string) \<times> 'tp)
   \<Rightarrow> 'tp \<Rightarrow> string \<Rightarrow> byte list \<Rightarrow> nat \<Rightarrow> (byte list \<Rightarrow> exn + 'r) option \<Rightarrow> string
   \<Rightarrow> (exn + 'r xceive_ret) \<times> 'tp" where
  "xceive_send b2h h2b send_apdu_checksw tp hdr cmd_do_enc cmd_do_len resp_cls exp_sw =
     (let c_apdu = hdr @ fmt_02x cmd_do_len @ b2h cmd_do_enc
      in case send_apdu_checksw tp c_apdu exp_sw of
           (Inl e, tp') \<Rightarrow> (Inl e, tp')
         | (Inr (data, sw), tp') \<Rightarrow>
             if data \<noteq> [] then
               (case resp_cls of
                  Some from_tlv \<Rightarrow>
                    (case h2b data of
                       Inl e \<Rightarrow> (Inl e, tp')
                     | Inr raw \<Rightarrow>
                        (case from_tlv raw of
                           Inl e \<Rightarrow> (Inl e, tp')
                         | Inr resp_do \<Rightarrow> (Inr (RetRespDo resp_do), tp')))
                | None \<Rightarrow> (Inr (RetData data), tp'))
             else (Inr RetNone, tp'))"

definition xceive_apdu_tlv ::
  "('ie \<Rightarrow> exn + byte list) \<Rightarrow> (byte list \<Rightarrow> string) \<Rightarrow> (string \<Rightarrow> exn + byte list)
   \<Rightarrow> ('tp \<Rightarrow> string \<Rightarrow> string \<Rightarrow> (exn + string \<times> string) \<times> 'tp)
   \<Rightarrow> 'tp \<Rightarrow> string \<Rightarrow> 'ie option \<Rightarrow> (byte list \<Rightarrow> exn + 'r) option \<Rightarrow> string
   \<Rightarrow> (exn + 'r xceive_ret) \<times> 'tp" where
  "xceive_apdu_tlv to_ie b2h h2b send_apdu_checksw tp hdr cmd_do resp_cls exp_sw =
     (case cmd_do of
        Some c \<Rightarrow>
          (case to_ie c of
             Inl e \<Rightarrow> (Inl e, tp)
           | Inr cmd_do_enc \<Rightarrow>
               if length cmd_do_enc > 255
               then (Inr (RetValueError ''DO > 255 bytes not supported yet''), tp)
               else xceive_send b2h h2b send_apdu_checksw tp hdr cmd_do_enc (length cmd_do_enc)
                      resp_cls exp_sw)
      | None \<Rightarrow> xceive_send b2h h2b send_apdu_checksw tp hdr [] 0 resp_cls exp_sw)"

section \<open>GlobalPlatform: card key sets (pySim/global\_platform/\_\_init\_\_.py)\<close>

text \<open>
  \<^verbatim>\<open>GpCardKeyset.__init__\<close>. The first argument is whatever the caller passes, so it is a
  Python value; the keys are bytes. An \<^verbatim>\<open>assert\<close> is checked unless the interpreter
  runs with assertions disabled (\<^verbatim>\<open>python -O\<close>), which is the flag \<open>asserts\<close>.
  Comparing anything but a number with \<^verbatim>\<open>0\<close> by \<^verbatim>\<open>>=\<close> raises \<^verbatim>\<open>TypeError\<close>.
\<close>

record GpCardKeyset =
  kvn :: pyval
  enc :: "byte list"
  mac :: "byte list"
  dek :: "byte list"

fun kvn_in_range :: "pyval \<Rightarrow> exn + bool" where
  "kvn_in_range (VInt k) = Inr (k \<ge> 0 \<and> k < 256)"
| "kvn_in_range _ = Inl TypeError"

definition GpCardKeyset_init ::
  "bool \<Rightarrow> pyval \<Rightarrow> byte list \<Rightarrow> byte list \<Rightarrow> byte list \<Rightarrow> exn + GpCardKeyset" where
  "GpCardKeyset_init asserts k e m d =
     (let built = Inr \<lparr>kvn = k, enc = e, mac = m, dek = d\<rparr>
      in if \<not> asserts then built
         else (case kvn_in_range k of
                 Inl ex \<Rightarrow> Inl ex
               | Inr ok \<Rightarrow>
                   if \<not> ok then Inl AssertionError
                   else if \<not> (length e = length m \<and> length m = length d) then Inl AssertionError
                   else built))"

text \<open>
  \<^verbatim>\<open>
    @classmethod
    def from_single_key(cls, kvn: int, base_key: bytes) -> 'GpCardKeyset':
        return cls(int, base_key, base_key, base_key)
  \<close>
  The first argument of the constructor call is the builtin type \<^verbatim>\<open>int\<close>, not the
  parameter \<^verbatim>\<open>kvn\<close>.
\<close>

definition GpCardKeyset_from_single_key ::
  "bool \<Rightarrow> int \<Rightarrow> byte list \<Rightarrow> exn + GpCardKeyset" where
  "GpCardKeyset_from_single_key asserts k base_key =
     GpCardKeyset_init asserts (VType ''int'') base_key base_key base_key"

section \<open>eSIM profile templates (pySim/esim/saip/templates.py)\<close>

text \<open>
  \<^verbatim>\<open>FileTemplate.__init__\<close>. An attribute the constructor does not set for the given
  file type (\<^verbatim>\<open>nb_rec\<close>, \<^verbatim>\<open>rec_len\<close>, \<^verbatim>\<open>file_size\<close>) is \<open>None\<close> here, as is
  a Python \<^verbatim>\<open>None\<close>. The \<^verbatim>\<open>parent\<close> and \<^verbatim>\<open>children\<close> attributes start empty and play
  no part below. File names are ASCII, so \<^verbatim>\<open>str.lower\<close> maps \<open>A..Z\<close> to \<open>a..z\<close>.
\<close>

record FileTemplate =
  fid :: "int option"
  name :: string
  pe_name :: string
  file_type :: string
  nb_rec :: "int option"
  rec_len :: "int option"
  file_size :: "int option"
  arr :: "int option"
  sfi :: "int option"
  default_val :: "string option"
  content_rqd :: "bool option"
  params :: "string list option"
  ass_serv :: "int list option"
  high_update :: bool

definition str_replace :: "char \<Rightarrow> char \<Rightarrow> string \<Rightarrow> string" where
  "str_replace a b s = map (\<lambda>c. if c = a then b else c) s"

definition lower_char :: "char \<Rightarrow> char" where
  "lower_char c =
     (case map_of (zip ''ABCDEFGHIJKLMNOPQRSTUVWXYZ'' ''abcdefghijklmnopqrstuvwxyz'') c of
        Some l \<Rightarrow> l
      | None \<Rightarrow> c)"

definition str_lower :: "string \<Rightarrow> string" where
  "str_lower s = map lower_char s"

text \<open>\<^verbatim>\<open>self.name.replace('.','-').replace('_','-').lower()\<close>\<close>

definition default_pe_name :: "string \<Rightarrow> string" where
  "default_pe_name n =
     str_lower (str_replace (CHR ''_'') (CHR ''-'') (str_replace (CHR ''.'') (CHR ''-'') n))"

definition FileTemplate_init ::
  "int option \<Rightarrow> string \<Rightarrow> string \<Rightarrow> int option \<Rightarrow> int option \<Rightarrow> int option \<Rightarrow> int option
   \<Rightarrow> string option \<Rightarrow> bool option \<Rightarrow> string list option \<Rightarrow> int list option \<Rightarrow> bool
   \<Rightarrow> string option \<Rightarrow> FileTemplate" where
  "FileTemplate_init fid' name' ftype nb_rec' size' arr' sfi' default_val' content_rqd' params'
       ass_serv' high_update' pe_name' =
     \<lparr>fid = fid', name = name',
      pe_name = (case pe_name' of
                   Some p \<Rightarrow> if p \<noteq> [] then p else default_pe_name name'
                 | None \<Rightarrow> default_pe_name name'),
      file_type = ftype,
      nb_rec = (if ftype \<in> set [''LF'', ''CY''] then nb_rec' else None),
      rec_len = (if ftype \<in> set [''LF'', ''CY''] then size' else None),
      file_size = (if ftype \<in> set [''LF'', ''CY''] then None
                   else if ftype \<in> set [''TR''] then size' else None),
      arr = arr', sfi = sfi', default_val = default_val', content_rqd = content_rqd',
      params = params', ass_serv = ass_serv', high_update = high_update'\<rparr>"

text \<open>
  The body of a class derived from \<^verbatim>\<open>ProfileTemplate\<close> binds \<^verbatim>\<open>created_by_default\<close>,
  \<^verbatim>\<open>oid\<close> and \<^verbatim>\<open>files\<close> in the namespace of the new class. The \<open>oid\<close> is kept as
  its string \<^verbatim>\<open>str(tpl.oid)\<close>; the OID constants (pySim.esim.saip.oid) are not part
  of the sources at hand.
\<close>

record ProfileTemplate_class =
  cls_name :: string
  created_by_default :: bool
  oid :: string
  files :: "FileTemplate list"

text \<open>
  The class objects, as far as \<^verbatim>\<open>files_by_pename\<close> and the registry go.
  \<^verbatim>\<open>files_by_pename: dict[str,FileTemplate] = {}\<close> in the body of \<^verbatim>\<open>ProfileTemplate\<close>
  creates one dict object, bound in the namespace of the base class
  (\<open>base_files_by_pename\<close>). \<open>own_files_by_pename\<close> holds the dict a derived class
  binds under that name in its own namespace, by class name. Reading the attribute
  \<^verbatim>\<open>cls.files_by_pename\<close> looks in the namespace of \<^verbatim>\<open>cls\<close> first and in the base
  class next; \<^verbatim>\<open>cls.files_by_pename[k] = f\<close> reads the attribute that way and stores
  into the dict it finds, it binds nothing. \<open>by_oid\<close> is
  \<^verbatim>\<open>ProfileTemplateRegistry.by_oid\<close>, from the OID string to the class (its name).
\<close>

record py_classes =
  base_files_by_pename :: "(string \<times> FileTemplate) list"
  own_files_by_pename :: "string \<rightharpoonup> (string \<times> FileTemplate) list"
  by_oid :: "(string \<times> string) list"

text \<open>The module before any derived class is defined.\<close>

definition initial_classes :: py_classes where
  "initial_classes = \<lparr>base_files_by_pename = [], own_files_by_pename = Map.empty, by_oid = []\<rparr>"

definition cls_files_by_pename :: "py_classes \<Rightarrow> string \<Rightarrow> (string \<times> FileTemplate) list" where
  "cls_files_by_pename st c =
     (case own_files_by_pename st c of Some d \<Rightarrow> d | None \<Rightarrow> base_files_by_pename st)"

definition files_by_pename_setitem :: "string \<Rightarrow> FileTemplate \<Rightarrow> py_classes \<Rightarrow> py_classes" where
  "files_by_pename_setitem c f st =
     (case own_files_by_pename st c of
        Some d \<Rightarrow>
          st\<lparr>own_files_by_pename := (own_files_by_pename st)(c \<mapsto> AList.update (pe_name f) f d)\<rparr>
      | None \<Rightarrow>
          st\<lparr>base_files_by_pename := AList.update (pe_name f) f (base_files_by_pename st)\<rparr>)"

text \<open>\<^verbatim>\<open>ProfileTemplateRegistry.add(tpl)\<close>\<close>

definition ProfileTemplateRegistry_add ::
  "ProfileTemplate_class \<Rightarrow> py_classes \<Rightarrow> (exn + unit) \<times> py_classes" where
  "ProfileTemplateRegistry_add tpl st =
     (let oid_str = oid tpl
      in if oid_str \<in> set (map fst (by_oid st))
         then (Inl (ValueError (''We already have a template for OID '' @ oid_str)), st)
         else (Inr (), st\<lparr>by_oid := AList.update oid_str (cls_name tpl) (by_oid st)\<rparr>))"

text \<open>
  \<^verbatim>\<open>
    def __init_subclass__(cls, **kwargs):
        super().__init_subclass__(**kwargs)
        for f in cls.files:
            cls.files_by_pename[f.pe_name] = f
        ProfileTemplateRegistry.add(cls)
  \<close>
  Python runs it at the end of every class statement that derives from
  \<^verbatim>\<open>ProfileTemplate\<close>.
\<close>

definition init_subclass :: "ProfileTemplate_class \<Rightarrow> py_classes \<Rightarrow> (exn + unit) \<times> py_classes" where
  "init_subclass cls st =
     ProfileTemplateRegistry_add cls (fold (files_by_pename_setitem (cls_name cls)) (files cls) st)"

text \<open>The first two templates of the module, in the order of their class statements.\<close>

definition FilesAtMF :: "string \<Rightarrow> ProfileTemplate_class" where
  "FilesAtMF oid_MF =
     \<lparr>cls_name = ''FilesAtMF'', created_by_default = True, oid = oid_MF,
      files = [
        FileTemplate_init (Some 0x3f00) ''MF'' ''MF'' None None (Some 14) None None None
          (Some [''pinStatusTemplateDO'']) None False None,
        FileTemplate_init (Some 0x2f05) ''EF.PL'' ''TR'' None (Some 2) (Some 1) (Some 0x05)
          (Some ''FF...FF'') None None None False None,
        FileTemplate_init (Some 0x2f02) ''EF.ICCID'' ''TR'' None (Some 10) (Some 11) None None
          (Some True) None None False None,
        FileTemplate_init (Some 0x2f00) ''EF.DIR'' ''LF'' None None (Some 10) (Some 0x1e) None
          (Some True) (Some [''nb_rec'', ''size'']) None False None,
        FileTemplate_init (Some 0x2f06) ''EF.ARR'' ''LF'' None None (Some 10) None None
          (Some True) (Some [''nb_rec'', ''size'']) None False None,
        FileTemplate_init (Some 0x2f08) ''EF.UMPC'' ''TR'' None (Some 5) (Some 10) (Some 0x08) None
          (Some False) None None False None]\<rparr>"

definition FilesCD :: "string \<Rightarrow> ProfileTemplate_class" where
  "FilesCD oid_DF_CD =
     \<lparr>cls_name = ''FilesCD'', created_by_default = False, oid = oid_DF_CD,
      files = [
        FileTemplate_init (Some 0x7f11) ''DF.CD'' ''DF'' None None (Some 14) None None
          (Some False) (Some [''pinStatusTemplateDO'']) None False None,
        FileTemplate_init (Some 0x6f01) ''EF.LAUNCHPAD'' ''TR'' None None (Some 2) None None
          (Some True) (Some [''size'']) None False None]
        @ map (\<lambda>i. FileTemplate_init (Some (0x6f00 + int i)) ''EF.ICON'' ''TR'' None None (Some 2)
                       None None (Some True) (Some [''size'']) None False None)
            [0x40 ..< 0x7f]\<rparr>"

definition after_FilesAtMF_FilesCD :: "string \<Rightarrow> string \<Rightarrow> py_classes" where
  "after_FilesAtMF_FilesCD oid_MF oid_DF_CD =
     snd (init_subclass (FilesCD oid_DF_CD) (snd (init_subclass (FilesAtMF oid_MF) initial_classes)))"

section \<open>The APDU trace decoder (pySim-trace.py)\<close>

subsection \<open>The merged command set\<close>

text \<open>
  Modelled from the spec: the addition of two command sets,
  \<^verbatim>\<open>ApduCommands = UiccApduCommands + UsimApduCommands\<close>. The operator is defined in
  pySim.apdu, which is not part of the sources at hand, and so are the two tables. The
  spec (4.4): the registry is built by merging command-set tables, each entry maps a
  (class, instruction) key to a command descriptor, and when two tables define the same
  key the later table's entry replaces the earlier one. A table is a dict: an association
  list whose keys are distinct. The merge stores every entry of the later table into the
  earlier one, in order.
\<close>

type_synonym 'd command_table = "((byte \<times> byte) \<times> 'd) list"

definition merge_tables :: "'d command_table \<Rightarrow> 'd command_table \<Rightarrow> 'd command_table" where
  "merge_tables earlier later = fold (\<lambda>(k, d) acc. AList.update k d acc) later earlier"

definition resolve :: "'d command_table \<Rightarrow> byte \<times> byte \<Rightarrow> 'd option" where
  "resolve t k = map_of t k"

definition ApduCommands :: "'d command_table \<Rightarrow> 'd command_table \<Rightarrow> 'd command_table" where
  "ApduCommands UiccApduCommands UsimApduCommands = merge_tables UiccApduCommands UsimApduCommands"

subsection \<open>Tracer.main\<close>

text \<open>
  What the source yields: a \<^verbatim>\<open>CardReset\<close> or an APDU.
\<close>

datatype 'apdu event = CardReset | ApduEvent 'apdu

text \<open>
  Modelled from the spec: \<^verbatim>\<open>RuntimeState\<close> and its \<^verbatim>\<open>reset\<close> (pySim.runtime, not part
  of the sources at hand). The spec (3, 4.5): the runtime navigation state has one entry
  per logical channel, each \<open>Unselected\<close>, \<open>MF-selected\<close> or
  \<open>DF/ADF-selected-with-path\<close>; a card reset clears all channels' state back to
  \<open>Unselected\<close>.
\<close>

datatype nav_state = Unselected | MF_selected | DF_selected "nat list"

type_synonym RuntimeState = "nat \<Rightarrow> nav_state"

definition RuntimeState_reset :: "RuntimeState \<Rightarrow> RuntimeState" where
  "RuntimeState_reset rs = (\<lambda>lchan_nr. Unselected)"

text \<open>
  The calls \<^verbatim>\<open>Tracer.main\<close> makes on its collaborators are recorded, in order, in
  \<open>calls\<close>: \<^verbatim>\<open>self.rs.reset()\<close>, \<^verbatim>\<open>self.format_reset(apdu)\<close>,
  \<^verbatim>\<open>self.ad.input(apdu)\<close> (the look-up in the instruction registry),
  \<^verbatim>\<open>inst.process(self.rs)\<close> and \<^verbatim>\<open>self.format_capdu(apdu, inst)\<close>.
\<close>

datatype ('apdu, 'inst) call =
    Call_rs_reset
  | Call_format_reset
  | Call_ad_input 'apdu
  | Call_process 'inst
  | Call_format_capdu 'apdu 'inst

fun is_lookup_or_process :: "('apdu, 'inst) call \<Rightarrow> bool" where
  "is_lookup_or_process (Call_ad_input a) = True"
| "is_lookup_or_process (Call_process i) = True"
| "is_lookup_or_process _ = False"

record ('rs, 'src, 'apdu, 'inst) Tracer =
  rs :: 'rs
  source :: 'src
  suppress_status :: bool
  suppress_select :: bool
  show_raw_apdu :: bool
  calls :: "('apdu, 'inst) call list"

text \<open>
  The collaborators, none of them part of the sources at hand: the source's blocking
  \<^verbatim>\<open>read\<close> (it may raise), \<^verbatim>\<open>RuntimeState.reset\<close>, \<^verbatim>\<open>ApduDecoder.input\<close> (it may
  raise), the \<^verbatim>\<open>process\<close> method of the command (it may change the runtime state and
  may raise), and the two \<^verbatim>\<open>isinstance\<close> tests.
\<close>

record ('rs, 'src, 'apdu, 'inst) collaborators =
  source_read :: "'src \<Rightarrow> (exn + 'apdu event) \<times> 'src"
  rs_reset :: "'rs \<Rightarrow> 'rs"
  ad_input :: "'apdu \<Rightarrow> exn + 'inst"
  inst_process :: "'inst \<Rightarrow> 'rs \<Rightarrow> (exn + unit) \<times> 'rs"
  is_UiccSelect :: "'inst \<Rightarrow> bool"
  is_UiccStatus :: "'inst \<Rightarrow> bool"

definition log_call ::
  "('apdu, 'inst) call \<Rightarrow> ('rs, 'src, 'apdu, 'inst) Tracer \<Rightarrow> ('rs, 'src, 'apdu, 'inst) Tracer" where
  "log_call c t = t\<lparr>calls := calls t @ [c]\<rparr>"

text \<open>
  One pass of the loop body, after \<^verbatim>\<open>apdu = self.source.read()\<close>. \<open>Inr\<close> is the
  tracer at the \<^verbatim>\<open>continue\<close> or at the end of the body, \<open>Inl\<close> an exception that
  leaves \<^verbatim>\<open>main\<close>.
\<close>

definition main_body ::
  "('rs, 'src, 'apdu, 'inst) collaborators \<Rightarrow> ('rs, 'src, 'apdu, 'inst) Tracer \<Rightarrow> 'apdu event
   \<Rightarrow> (exn \<times> ('rs, 'src, 'apdu, 'inst) Tracer) + ('rs, 'src, 'apdu, 'inst) Tracer" where
  "main_body co t ev =
     (case ev of
        CardReset \<Rightarrow>
          (let t1 = log_call Call_rs_reset (t\<lparr>rs := rs_reset co (rs t)\<rparr>);
               t2 = log_call Call_format_reset t1
           in Inr t2)
      | ApduEvent apdu \<Rightarrow>
          (let t1 = log_call (Call_ad_input apdu) t
           in case ad_input co apdu of
                Inl e \<Rightarrow> Inl (e, t1)
              | Inr inst \<Rightarrow>
                 (case inst_process co inst (rs t1) of
                    (Inl e, rs') \<Rightarrow> Inl (e, log_call (Call_process inst) (t1\<lparr>rs := rs'\<rparr>))
                  | (Inr u, rs') \<Rightarrow>
                     (let t2 = log_call (Call_process inst) (t1\<lparr>rs := rs'\<rparr>)
                      in if suppress_select t2 \<and> is_UiccSelect co inst then Inr t2
                         else if suppress_status t2 \<and> is_UiccStatus co inst then Inr t2
                         else Inr (log_call (Call_format_capdu apdu inst) t2)))))"

text \<open>
  \<^verbatim>\<open>while True:\<close> has no exit of its own: \<^verbatim>\<open>main\<close> ends only when a collaborator
  raises, and the result is \<open>None\<close> when it never ends.
\<close>

partial_function (option) Tracer_main ::
  "('rs, 'src, 'apdu, 'inst) collaborators \<Rightarrow> ('rs, 'src, 'apdu, 'inst) Tracer
   \<Rightarrow> (exn \<times> ('rs, 'src, 'apdu, 'inst) Tracer) option" where
  "Tracer_main co t =
     (case source_read co (source t) of
        (Inl e, src') \<Rightarrow> Some (e, t\<lparr>source := src'\<rparr>)
      | (Inr apdu, src') \<Rightarrow>
         (case main_body co (t\<lparr>source := src'\<rparr>) apdu of
            Inl r \<Rightarrow> Some r
          | Inr t' \<Rightarrow> Tracer_main co t'))"

text \<open>The tracer one pass of the body leaves, and the calls that pass has added.\<close>

definition body_tracer ::
  "(exn \<times> ('rs, 'src, 'apdu, 'inst) Tracer) + ('rs, 'src, 'apdu, 'inst) Tracer
   \<Rightarrow> ('rs, 'src, 'apdu, 'inst) Tracer" where
  "body_tracer r = (case r of Inl (e, t) \<Rightarrow> t | Inr t \<Rightarrow> t)"

definition new_calls ::
  "('rs, 'src, 'apdu, 'inst) collaborators \<Rightarrow> ('rs, 'src, 'apdu, 'inst) Tracer \<Rightarrow> 'apdu event
   \<Rightarrow> ('apdu, 'inst) call list" where
  "new_calls co t ev = drop (length (calls t)) (calls (body_tracer (main_body co t ev)))"

text \<open>
  A source that replays a recorded list of events and raises at its end, and the run of
  the loop body over such a list.
\<close>

definition script_read :: "'apdu event list \<Rightarrow> (exn + 'apdu event) \<times> 'apdu event list" where
  "script_read evs =
     (case evs of
        [] \<Rightarrow> (Inl (OtherError ''StopIteration''), [])
      | ev # rest \<Rightarrow> (Inr ev, rest))"

fun run_events ::
  "('rs, 'apdu event list, 'apdu, 'inst) collaborators
   \<Rightarrow> ('rs, 'apdu event list, 'apdu, 'inst) Tracer
   \<Rightarrow> 'apdu event list \<Rightarrow> exn \<times> ('rs, 'apdu event list, 'apdu, 'inst) Tracer" where
  "run_events co t [] = (OtherError ''StopIteration'', t\<lparr>source := []\<rparr>)"
| "run_events co t (ev # rest) =
     (case main_body co (t\<lparr>source := rest\<rparr>) ev of
        Inl r \<Rightarrow> r
      | Inr t' \<Rightarrow> run_events co t' rest)"

text \<open>A recording collaborator set over the runtime state of the spec, for examples.\<close>

definition replay_collaborators ::
  "(RuntimeState, string event list, string, string) collaborators" where
  "replay_collaborators =
     \<lparr>source_read = script_read, rs_reset = RuntimeState_reset,
      ad_input = (\<lambda>apdu. Inr apdu),
      inst_process = (\<lambda>inst r. (Inr (), r(0 := DF_selected [0x7f11]))),
      is_UiccSelect = (\<lambda>inst. False), is_UiccStatus = (\<lambda>inst. False)\<rparr>"

definition replay_tracer ::
  "string event list \<Rightarrow> (RuntimeState, string event list, string, string) Tracer" where
  "replay_tracer evs =
     \<lparr>rs = (\<lambda>lchan_nr. if lchan_nr = 0 then DF_selected [0x7f11] else MF_selected),
      source = evs, suppress_status = True, suppress_select = True, show_raw_apdu = False,
      calls = []\<rparr>"

section \<open>BER-TLV data objects\<close>

text \<open>
  The codec engine (pySim.tlv) and the construct library are not part of the sources at
  hand; the data objects of the sources only declare a tag and a value layout.
\<close>

datatype codec_error =
    MalformedLength
  | UnknownTag
  | UnexpectedElement
  | ValueTooLong
  | TruncatedTag
  | StreamError
  | MappingError
  | FormatFieldError

definition be_value :: "byte list \<Rightarrow> nat" where
  "be_value bs = foldl (\<lambda>acc b. acc * 256 + unat b) 0 bs"

fun be_bytes :: "nat \<Rightarrow> byte list" where
  "be_bytes n = (if n < 256 then [of_nat n] else be_bytes (n div 256) @ [of_nat (n mod 256)])"

declare be_bytes.simps [simp del]

text \<open>
  Modelled from the spec: the tag and length primitives of pySim.tlv. The spec (4.1): a
  tag is read by the BER-TLV continuation rule (the first byte's low 5 bits all set
  means more tag bytes follow, each subsequent byte's high bit set means it continues);
  a length is short form (a byte below 0x80 is the length) or long form (the byte's low
  7 bits count the following length bytes, big-endian), and it fails with
  \<open>MalformedLength\<close> if the long-form count is 0 or exceeds the remaining buffer.
  Encoding is the inverse and chooses the minimal form. The spec names no error for a
  buffer that ends inside a tag; that is \<open>TruncatedTag\<close> here. A tag is the number its
  bytes spell, big-endian (\<^verbatim>\<open>tag=0xc0\<close>, \<^verbatim>\<open>tag=0x9f70\<close>).
\<close>

fun bertlv_tag_rest :: "nat \<Rightarrow> byte list \<Rightarrow> codec_error + (nat \<times> byte list)" where
  "bertlv_tag_rest acc [] = Inl TruncatedTag"
| "bertlv_tag_rest acc (b # bs) =
     (if b AND 0x80 \<noteq> 0 then bertlv_tag_rest (acc * 256 + unat b) bs
      else Inr (acc * 256 + unat b, bs))"

definition bertlv_parse_tag :: "byte list \<Rightarrow> codec_error + (nat \<times> byte list)" where
  "bertlv_parse_tag buf =
     (case buf of
        [] \<Rightarrow> Inl TruncatedTag
      | b # bs \<Rightarrow> if b AND 0x1f = 0x1f then bertlv_tag_rest (unat b) bs else Inr (unat b, bs))"

definition bertlv_parse_len :: "byte list \<Rightarrow> codec_error + (nat \<times> byte list)" where
  "bertlv_parse_len buf =
     (case buf of
        [] \<Rightarrow> Inl MalformedLength
      | b # bs \<Rightarrow>
          if b < 0x80 then Inr (unat b, bs)
          else (let n = unat (b AND 0x7f)
                in if n = 0 \<or> n > length bs then Inl MalformedLength
                   else Inr (be_value (take n bs), drop n bs)))"

definition bertlv_encode_tag :: "nat \<Rightarrow> byte list" where
  "bertlv_encode_tag t = be_bytes t"

definition bertlv_encode_len :: "nat \<Rightarrow> codec_error + byte list" where
  "bertlv_encode_len n =
     (if n < 0x80 then Inr [of_nat n]
      else (let bs = be_bytes n
            in if length bs > 127 then Inl ValueTooLong
               else Inr (of_nat (0x80 + length bs) # bs)))"

text \<open>
  Modelled from the spec: \<^verbatim>\<open>from_tlv\<close> and \<^verbatim>\<open>to_tlv\<close> of a data object with one tag
  (pySim.tlv). The spec (4.2): read one tag, length and value from the front of the
  buffer; an unknown tag fails with \<open>UnknownTag\<close>; the value bytes go to the value
  codec; the unconsumed trailing bytes are returned as leftover. A length that claims
  more bytes than remain fails with \<open>MalformedLength\<close> (8). Encoding wraps the encoded
  value with the tag and the length.
\<close>

definition tlv_decode_one ::
  "nat \<Rightarrow> (byte list \<Rightarrow> codec_error + 'v) \<Rightarrow> byte list \<Rightarrow> codec_error + ('v \<times> byte list)" where
  "tlv_decode_one tag decode_value buf =
     (case bertlv_parse_tag buf of
        Inl e \<Rightarrow> Inl e
      | Inr (t, after_tag) \<Rightarrow>
          if t \<noteq> tag then Inl UnknownTag
          else (case bertlv_parse_len after_tag of
                  Inl e \<Rightarrow> Inl e
                | Inr (n, after_len) \<Rightarrow>
                    if n > length after_len then Inl MalformedLength
                    else (case decode_value (take n after_len) of
                            Inl e \<Rightarrow> Inl e
                          | Inr v \<Rightarrow> Inr (v, drop n after_len))))"

definition tlv_encode_one ::
  "nat \<Rightarrow> ('v \<Rightarrow> codec_error + byte list) \<Rightarrow> 'v \<Rightarrow> codec_error + byte list" where
  "tlv_encode_one tag encode_value v =
     (case encode_value v of
        Inl e \<Rightarrow> Inl e
      | Inr val \<Rightarrow>
          (case bertlv_encode_len (length val) of
             Inl e \<Rightarrow> Inl e
           | Inr len \<Rightarrow> Inr (bertlv_encode_tag tag @ len @ val)))"

subsection \<open>The construct library: Enum and Byte\<close>

text \<open>
  \<^verbatim>\<open>Enum(Byte, name=value, ...)\<close> parses a byte to the name that has this value and
  to the plain integer when no name has it; it builds a name to its value
  (\<^verbatim>\<open>MappingError\<close> for an unknown name) and an integer to itself. \<^verbatim>\<open>Byte\<close> and
  \<^verbatim>\<open>Int8ub\<close> build one byte from an integer below 256.
\<close>

datatype enum_val = EnumName string | EnumInt nat

definition Enum_parse :: "(string \<times> nat) list \<Rightarrow> nat \<Rightarrow> enum_val" where
  "Enum_parse table v =
     (case find (\<lambda>(n, x). x = v) table of Some (n, x) \<Rightarrow> EnumName n | None \<Rightarrow> EnumInt v)"

definition Enum_build :: "(string \<times> nat) list \<Rightarrow> enum_val \<Rightarrow> codec_error + nat" where
  "Enum_build table v =
     (case v of
        EnumInt i \<Rightarrow> Inr i
      | EnumName n \<Rightarrow> (case map_of table n of Some x \<Rightarrow> Inr x | None \<Rightarrow> Inl MappingError))"

definition Byte_build :: "nat \<Rightarrow> codec_error + byte list" where
  "Byte_build v = (if v < 256 then Inr [of_nat v] else Inl FormatFieldError)"

subsection \<open>KeyInformationData (pySim/global\_platform/\_\_init\_\_.py)\<close>

text \<open>The table of \<^verbatim>\<open>KeyType = Enum(Byte, des=0x80, ...)\<close>.\<close>

definition KeyType :: "(string \<times> nat) list" where
  "KeyType =
     [(''des'', 0x80), (''tls_psk'', 0x85), (''aes'', 0x88), (''hmac_sha1'', 0x90),
      (''hmac_sha1_160'', 0x91), (''rsa_public_exponent_e_cleartex'', 0xA0),
      (''rsa_modulus_n_cleartext'', 0xA1), (''rsa_modulus_n'', 0xA2),
      (''rsa_private_exponent_d'', 0xA3), (''rsa_chines_remainder_p'', 0xA4),
      (''rsa_chines_remainder_q'', 0xA5), (''rsa_chines_remainder_pq'', 0xA6),
      (''rsa_chines_remainder_dpi'', 0xA7), (''rsa_chines_remainder_dqi'', 0xA8),
      (''ecc_public_key'', 0xB0), (''ecc_private_key'', 0xB1), (''ecc_field_parameter_p'', 0xB2),
      (''ecc_field_parameter_a'', 0xB3), (''ecc_field_parameter_b'', 0xB4),
      (''ecc_field_parameter_g'', 0xB5), (''ecc_field_parameter_n'', 0xB6),
      (''ecc_field_parameter_k'', 0xB7), (''ecc_key_parameters_reference'', 0xF0),
      (''not_available'', 0xff)]"

text \<open>
  \<^verbatim>\<open>
    class KeyInformationData(BER_TLV_IE, tag=0xc0):
        KeyTypeLen = Struct('type'/KeyType, 'length'/Int8ub)
        _construct = Struct('key_identifier'/Byte, 'key_version_number'/Byte,
                            'key_types'/GreedyRange(KeyTypeLen))
  \<close>
  The fields \<^verbatim>\<open>type\<close> and \<^verbatim>\<open>length\<close> of \<^verbatim>\<open>KeyTypeLen\<close> are \<open>key_type\<close> and
  \<open>key_length\<close> here. \<^verbatim>\<open>GreedyRange\<close> parses elements as long as a whole element is
  left and stops before a rest it cannot parse.
\<close>

record KeyTypeLen =
  key_type :: enum_val
  key_length :: nat

record KeyInformationData =
  key_identifier :: nat
  key_version_number :: nat
  key_types :: "KeyTypeLen list"

fun GreedyRange_KeyTypeLen_parse :: "byte list \<Rightarrow> KeyTypeLen list" where
  "GreedyRange_KeyTypeLen_parse (t # l # rest) =
     \<lparr>key_type = Enum_parse KeyType (unat t), key_length = unat l\<rparr>
       # GreedyRange_KeyTypeLen_parse rest"
| "GreedyRange_KeyTypeLen_parse _ = []"

definition KeyInformationData_parse :: "byte list \<Rightarrow> codec_error + KeyInformationData" where
  "KeyInformationData_parse val =
     (case val of
        ki # kv # rest \<Rightarrow>
          Inr \<lparr>key_identifier = unat ki, key_version_number = unat kv,
               key_types = GreedyRange_KeyTypeLen_parse rest\<rparr>
      | _ \<Rightarrow> Inl StreamError)"

definition KeyTypeLen_build :: "KeyTypeLen \<Rightarrow> codec_error + byte list" where
  "KeyTypeLen_build k =
     (case Enum_build KeyType (key_type k) of
        Inl e \<Rightarrow> Inl e
      | Inr t \<Rightarrow>
         (case Byte_build t of
            Inl e \<Rightarrow> Inl e
          | Inr tb \<Rightarrow>
             (case Byte_build (key_length k) of Inl e \<Rightarrow> Inl e | Inr lb \<Rightarrow> Inr (tb @ lb))))"

fun GreedyRange_KeyTypeLen_build :: "KeyTypeLen list \<Rightarrow> codec_error + byte list" where
  "GreedyRange_KeyTypeLen_build [] = Inr []"
| "GreedyRange_KeyTypeLen_build (k # ks) =
     (case KeyTypeLen_build k of
        Inl e \<Rightarrow> Inl e
      | Inr b \<Rightarrow>
         (case GreedyRange_KeyTypeLen_build ks of Inl e \<Rightarrow> Inl e | Inr bs \<Rightarrow> Inr (b @ bs)))"

definition KeyInformationData_build :: "KeyInformationData \<Rightarrow> codec_error + byte list" where
  "KeyInformationData_build v =
     (case Byte_build (key_identifier v) of
        Inl e \<Rightarrow> Inl e
      | Inr a \<Rightarrow>
         (case Byte_build (key_version_number v) of
            Inl e \<Rightarrow> Inl e
          | Inr b \<Rightarrow>
             (case GreedyRange_KeyTypeLen_build (key_types v) of
                Inl e \<Rightarrow> Inl e
              | Inr c \<Rightarrow> Inr (a @ b @ c))))"

definition KeyInformationData_from_tlv ::
  "byte list \<Rightarrow> codec_error + (KeyInformationData \<times> byte list)" where
  "KeyInformationData_from_tlv buf = tlv_decode_one 0xc0 KeyInformationData_parse buf"

definition KeyInformationData_to_tlv :: "KeyInformationData \<Rightarrow> codec_error + byte list" where
  "KeyInformationData_to_tlv v = tlv_encode_one 0xc0 KeyInformationData_build v"

section \<open>GlobalPlatform: GET STATUS (pySim/global\_platform/\_\_init\_\_.py)\<close>

text \<open>The table of \<^verbatim>\<open>StatusSubset = Enum(Byte, isd=0x80, ...)\<close>.\<close>

definition StatusSubset :: "(string \<times> nat) list" where
  "StatusSubset = [(''isd'', 0x80), (''applications'', 0x40), (''files'', 0x20),
                   (''files_and_modules'', 0x10)]"

text \<open>
  The inner loop of \<^verbatim>\<open>get_status\<close>:
  \<^verbatim>\<open>
    while len(remainder):
        grd = GpRegistryRelatedData()
        dec, remainder = grd.from_tlv(remainder)
        grd_list.append(grd)
  \<close>
  \<^verbatim>\<open>from_tlv\<close> of the data object is a parameter: it raises, or it yields the decoded
  object and the leftover bytes. Nothing in the loop itself makes the remainder shorter,
  so the result is \<open>None\<close> when the loop never ends.
\<close>

partial_function (option) decode_grd_list ::
  "(byte list \<Rightarrow> exn + ('grd \<times> byte list)) \<Rightarrow> byte list \<Rightarrow> 'grd list
   \<Rightarrow> (exn + 'grd list) option" where
  "decode_grd_list from_tlv remainder grd_list =
     (if length remainder \<noteq> 0 then
        (case from_tlv remainder of
           Inl e \<Rightarrow> Some (Inl e)
         | Inr (grd, remainder') \<Rightarrow> decode_grd_list from_tlv remainder' (grd_list @ [grd]))
      else Some (Inr grd_list))"

text \<open>\<^verbatim>\<open>hdr = "80F2%s%02x%02x" % (subset_hex, p2, len(cmd_data))\<close>\<close>

definition get_status_hdr :: "string \<Rightarrow> nat \<Rightarrow> nat \<Rightarrow> string" where
  "get_status_hdr subset_hex p2 n = ''80F2'' @ subset_hex @ fmt_02x p2 @ fmt_02x n"

text \<open>
  The outer loop, \<^verbatim>\<open>while True:\<close>. The transport's \<^verbatim>\<open>send_apdu\<close> (with its state
  \<open>tp\<close>), \<open>b2h\<close> and \<open>h2b\<close> are parameters. The loop ends when a status word other
  than \<^verbatim>\<open>'6310'\<close> comes back or something raises.
\<close>

partial_function (option) get_status_loop ::
  "('tp \<Rightarrow> string \<Rightarrow> (exn + string \<times> string) \<times> 'tp) \<Rightarrow> (byte list \<Rightarrow> string)
   \<Rightarrow> (string \<Rightarrow> exn + byte list) \<Rightarrow> (byte list \<Rightarrow> exn + ('grd \<times> byte list))
   \<Rightarrow> string \<Rightarrow> byte list \<Rightarrow> 'tp \<Rightarrow> nat \<Rightarrow> 'grd list
   \<Rightarrow> ((exn + 'grd list) \<times> 'tp) option" where
  "get_status_loop send_apdu b2h h2b from_tlv subset_hex cmd_data tp p2 grd_list =
     (case send_apdu tp (get_status_hdr subset_hex p2 (length cmd_data) @ b2h cmd_data) of
        (Inl e, tp') \<Rightarrow> Some (Inl e, tp')
      | (Inr (data, sw), tp') \<Rightarrow>
         (case h2b data of
            Inl e \<Rightarrow> Some (Inl e, tp')
          | Inr remainder \<Rightarrow>
             (case decode_grd_list from_tlv remainder grd_list of
                None \<Rightarrow> None
              | Some (Inl e) \<Rightarrow> Some (Inl e, tp')
              | Some (Inr grd_list') \<Rightarrow>
                  if sw \<noteq> ''6310'' then Some (Inr grd_list', tp')
                  else get_status_loop send_apdu b2h h2b from_tlv subset_hex cmd_data tp'
                         (p2 OR 0x01) grd_list')))"

text \<open>
  \<^verbatim>\<open>get_status(self, subset, aid_search_qualifier)\<close>. \<^verbatim>\<open>build_construct(StatusSubset,
  subset)\<close> builds the one byte of the subset; \<^verbatim>\<open>to_tlv\<close> of the \<^verbatim>\<open>ApplicationAID\<close> is a
  parameter. \<^verbatim>\<open>p2\<close> starts as \<^verbatim>\<open>0x02\<close>, the list as empty.
\<close>

definition get_status ::
  "('tp \<Rightarrow> string \<Rightarrow> (exn + string \<times> string) \<times> 'tp) \<Rightarrow> (byte list \<Rightarrow> string)
   \<Rightarrow> (string \<Rightarrow> exn + byte list) \<Rightarrow> (string \<Rightarrow> exn + byte list)
   \<Rightarrow> (byte list \<Rightarrow> exn + ('grd \<times> byte list))
   \<Rightarrow> 'tp \<Rightarrow> string \<Rightarrow> string \<Rightarrow> ((exn + 'grd list) \<times> 'tp) option" where
  "get_status send_apdu b2h h2b aid_to_tlv from_tlv tp subset_name aid_search_qualifier =
     (case Enum_build StatusSubset (EnumName subset_name) of
        Inl e \<Rightarrow> Some (Inl (OtherError ''MappingError''), tp)
      | Inr v \<Rightarrow>
         (case Byte_build v of
            Inl e \<Rightarrow> Some (Inl (OtherError ''FormatFieldError''), tp)
          | Inr sb \<Rightarrow>
             (case aid_to_tlv aid_search_qualifier of
                Inl e \<Rightarrow> Some (Inl e, tp)
              | Inr aid_tlv \<Rightarrow>
                 (case h2b ''5c054f9f70c5cc'' of
                    Inl e \<Rightarrow> Some (Inl e, tp)
                  | Inr tail \<Rightarrow>
                      get_status_loop send_apdu b2h h2b from_tlv (b2h sb) (aid_tlv @ tail)
                        tp 0x02 []))))"

text \<open>
  What it means for a response to be a back-to-back sequence of TLV elements: the buffer
  is empty and there are no elements, or \<^verbatim>\<open>from_tlv\<close> yields the first element from the
  front of the buffer and the leftover bytes are the sequence of the others.
\<close>

inductive tlv_sequence ::
  "(byte list \<Rightarrow> exn + ('grd \<times> byte list)) \<Rightarrow> byte list \<Rightarrow> 'grd list \<Rightarrow> bool"
  for from_tlv :: "byte list \<Rightarrow> exn + ('grd \<times> byte list)" where
  seq_end: "tlv_sequence from_tlv [] []"
| seq_next: "buf \<noteq> [] \<Longrightarrow> from_tlv buf = Inr (grd, leftover)
             \<Longrightarrow> tlv_sequence from_tlv leftover grds
             \<Longrightarrow> tlv_sequence from_tlv buf (grd # grds)"

text \<open>
  A card that answers from a recorded list of responses (data, status word), and keeps
  the commands it was sent.
\<close>

definition scripted_send ::
  "(string \<times> string) list \<times> string list \<Rightarrow> string
   \<Rightarrow> (exn + string \<times> string) \<times> ((string \<times> string) list \<times> string list)" where
  "scripted_send tp c_apdu =
     (case fst tp of
        [] \<Rightarrow> (Inl (OtherError ''no response''), ([], snd tp @ [c_apdu]))
      | r # rest \<Rightarrow> (Inr r, (rest, snd tp @ [c_apdu])))"

text \<open>
  Instances of the parameters for the examples: plain hex without whitespace for
  \<open>b2h\<close> and \<open>h2b\<close>, and a \<^verbatim>\<open>from_tlv\<close> for tag \<open>0xe3\<close> that keeps the value bytes as
  they are.
\<close>

definition hexval :: "char \<Rightarrow> nat option" where
  "hexval c =
     map_of (zip ''0123456789abcdefABCDEF''
               [0, 1, 2, 3, 4, 5, 6, 7, 8, 9, 10, 11, 12, 13, 14, 15, 10, 11, 12, 13, 14, 15]) c"

fun hex_decode :: "string \<Rightarrow> exn + byte list" where
  "hex_decode [] = Inr []"
| "hex_decode [a] = Inl (ValueError ''non-hexadecimal number found in fromhex() arg'')"
| "hex_decode (a # b # rest) =
     (case (hexval a, hexval b) of
        (Some x, Some y) \<Rightarrow>
          (case hex_decode rest of
             Inl e \<Rightarrow> Inl e
           | Inr bs \<Rightarrow> Inr (of_nat (16 * x + y) # bs))
      | _ \<Rightarrow> Inl (ValueError ''non-hexadecimal number found in fromhex() arg''))"

definition hex_encode :: "byte list \<Rightarrow> string" where
  "hex_encode bs = concat (map (\<lambda>b. [hexdigit (unat b div 16), hexdigit (unat b mod 16)]) bs)"

definition raw_from_tlv :: "byte list \<Rightarrow> exn + (byte list \<times> byte list)" where
  "raw_from_tlv buf =
     (case tlv_decode_one 0xe3 Inr buf of
        Inl e \<Rightarrow> Inl (ValueError ''GpRegistryRelatedData'')
      | Inr r \<Rightarrow> Inr r)"

section \<open>Properties\<close>

text \<open>
  C8. For the ApduArDO descriptor: encoding the value {generic\_access\_rule: 'always'}
  yields the single byte 0x01; decoding the single byte 0x01 yields
  {generic\_access\_rule: 'always'}; decoding the single byte 0x00 yields
  {generic\_access\_rule: 'never'}; and encoding {generic\_access\_rule: 'never'} yields the
  single byte 0x00. Decoding does so whatever \<^verbatim>\<open>self.decoded\<close> held before, and
  leaves the decoded value in \<^verbatim>\<open>self.decoded\<close>.
\<close>

theorem ApduArDO_generic_access_rule:
  "ApduArDO_to_bytes h2b (VDict [(''generic_access_rule'', VStr ''always'')]) = Inr (VBytes [0x01])
   \<and> ApduArDO_from_bytes b2h decoded [0x01]
       = Some (Inr (VDict [(''generic_access_rule'', VStr ''always'')]),
               VDict [(''generic_access_rule'', VStr ''always'')])
   \<and> ApduArDO_from_bytes b2h decoded [0x00]
       = Some (Inr (VDict [(''generic_access_rule'', VStr ''never'')]),
               VDict [(''generic_access_rule'', VStr ''never'')])
   \<and> ApduArDO_to_bytes h2b (VDict [(''generic_access_rule'', VStr ''never'')]) = Inr (VBytes [0x00])"
  by (simp add: ApduArDO_to_bytes_def ApduArDO_from_bytes_def Let_def)


subsection \<open>The filter loop of ApduArDO.\_from\_bytes\<close>

lemma has_filter_listE:
  assumes "has_filter_list v"
  obtains d l where "v = VDict d" and "map_of d ''apdu_filter'' = Some (VList l)"
proof (cases v)
  case (VDict d)
  with assms obtain x where x: "map_of d ''apdu_filter'' = Some x" "is_list x"
    by (auto split: option.splits)
  then obtain l where "x = VList l" by (cases x) auto
  with VDict x that show ?thesis by blast
qed (use assms in auto)

text \<open>
  While the offset is inside the buffer and the invariant holds, one pass of the body
  re-establishes both, so no number of passes ends the loop.
\<close>

lemma apdu_filter_loop_never_returns:
  assumes "apdu_filter_loop b2h dob offset decoded = Some r"
  shows "\<not> (offset < length dob \<and> has_filter_list decoded)"
  using assms
proof (induction rule: apdu_filter_loop.raw_induct[rotated 1, consumes 1])
  case (1 loop b2h dob offset decoded r)
  show ?case
  proof
    assume a: "offset < length dob \<and> has_filter_list decoded"
    then obtain d l where d: "decoded = VDict d" "map_of d ''apdu_filter'' = Some (VList l)"
      by (auto elim: has_filter_listE)
    let ?new = "VList (l @ [VStr ''header'', VStr ''mask''])"
    let ?d' = "VDict (AList.update ''apdu_filter'' ?new d)"
    from 1(2) a d have "loop b2h dob offset ?d' = Some r"
      by simp
    moreover have "has_filter_list ?d'"
      by (simp add: update_conv')
    ultimately show False using 1(1) a by blast
  qed
qed

lemma apdu_filter_loop_diverges:
  "offset < length dob \<Longrightarrow> has_filter_list decoded
   \<Longrightarrow> apdu_filter_loop b2h dob offset decoded = None"
  using apdu_filter_loop_never_returns[of b2h dob offset decoded]
  by (cases "apdu_filter_loop b2h dob offset decoded") auto

lemma from_bytes_dict_diverges:
  "length dob \<noteq> 1 \<Longrightarrow> length dob mod 8 = 0 \<Longrightarrow> 0 < length dob
   \<Longrightarrow> ApduArDO_from_bytes b2h (VDict d) dob = None"
  by (simp add: ApduArDO_from_bytes_def apdu_filter_loop_diverges update_conv')

lemma from_bytes_not_dict_raises:
  "length dob \<noteq> 1 \<Longrightarrow> length dob mod 8 = 0 \<Longrightarrow> \<forall>d. decoded \<noteq> VDict d
   \<Longrightarrow> ApduArDO_from_bytes b2h decoded dob = Some (Inl TypeError, decoded)"
  by (cases decoded) (simp_all add: ApduArDO_from_bytes_def)

lemma from_bytes_filter_never_returns_value:
  assumes "length dob \<noteq> 1" and "length dob mod 8 = 0"
  shows "ApduArDO_from_bytes b2h decoded dob \<noteq> Some (Inr v, s)"
  using assms
  by (auto simp: ApduArDO_from_bytes_def split: sum.splits option.splits prod.splits)

text \<open>
  C1 (the code departs from the claim). The input is one 8-byte filter block, header
  \<open>00 a4 04 00\<close> and mask \<open>ff ff ff ff\<close>. On a fresh object (\<^verbatim>\<open>self.decoded\<close> is
  \<^verbatim>\<open>None\<close>) the call raises \<^verbatim>\<open>TypeError\<close> at \<^verbatim>\<open>self.decoded['apdu_filter'] = []\<close>, and
  whatever \<^verbatim>\<open>self.decoded\<close> held before, the call returns no value at all: no list of
  header/mask entries is ever produced.
\<close>

theorem ApduArDO_from_bytes_block_returns_no_filter:
  "ApduArDO_from_bytes b2h VNone [0x00, 0xa4, 0x04, 0x00, 0xff, 0xff, 0xff, 0xff]
     = Some (Inl TypeError, VNone)
   \<and> (\<forall>decoded. \<nexists>v s. ApduArDO_from_bytes b2h decoded
                              [0x00, 0xa4, 0x04, 0x00, 0xff, 0xff, 0xff, 0xff] = Some (Inr v, s))"
proof -
  let ?blk = "[0x00, 0xa4, 0x04, 0x00, 0xff, 0xff, 0xff, 0xff] :: byte list"
  have "ApduArDO_from_bytes b2h VNone ?blk = Some (Inl TypeError, VNone)"
    by (simp add: ApduArDO_from_bytes_def)
  moreover have "ApduArDO_from_bytes b2h decoded ?blk \<noteq> Some (Inr v, s)" for decoded v s
    by (rule from_bytes_filter_never_returns_value) simp_all
  ultimately show ?thesis by blast
qed

text \<open>
  C3 (the code departs from the claim). When \<^verbatim>\<open>self.decoded\<close> is a dict (the object
  has decoded a one-byte rule before, or was built with a decoded value), decoding an
  8-byte filter block never returns: the loop does not advance \<^verbatim>\<open>offset\<close>. On the
  empty input the same object is left with a half-built \<^verbatim>\<open>'apdu_filter'\<close> entry when
  \<^verbatim>\<open>NameError\<close> is raised.
\<close>

theorem ApduArDO_from_bytes_block_diverges:
  "ApduArDO_from_bytes b2h (VDict [(''generic_access_rule'', VStr ''always'')])
      [0x00, 0xa4, 0x04, 0x00, 0xff, 0xff, 0xff, 0xff] = None
   \<and> ApduArDO_from_bytes b2h (VDict [(''generic_access_rule'', VStr ''always'')]) []
      = Some (Inl NameError,
              VDict [(''generic_access_rule'', VStr ''always''), (''apdu_filter'', VList [])])"
proof -
  have "ApduArDO_from_bytes b2h (VDict [(''generic_access_rule'', VStr ''always'')])
          [0x00, 0xa4, 0x04, 0x00, 0xff, 0xff, 0xff, 0xff] = None"
    by (rule from_bytes_dict_diverges) simp_all
  moreover have "ApduArDO_from_bytes b2h (VDict [(''generic_access_rule'', VStr ''always'')]) []
      = Some (Inl NameError,
              VDict [(''generic_access_rule'', VStr ''always''), (''apdu_filter'', VList [])])"
    by (simp add: ApduArDO_from_bytes_def apdu_filter_loop.simps)
  ultimately show ?thesis by blast
qed

text \<open>
  C2 (the code departs from the claim). On each invalid input below the function hands
  back a \<^verbatim>\<open>ValueError\<close> object as its result instead of raising it: a one-byte rule
  other than 0 and 1, a 3-byte filter, a decoded value with an unknown generic rule, a
  decoded value with neither key, a filter without a mask, and a command data object
  that encodes to 256 bytes (nothing is sent to the card then).
\<close>

theorem ARAM_errors_are_returned_not_raised:
  "ApduArDO_from_bytes b2h decoded [0x02]
     = Some (Inr (VValueError ''Invalid 1-byte generic APDU access rule''), decoded)
   \<and> ApduArDO_from_bytes b2h decoded [0x00, 0xa4, 0x04]
     = Some (Inr (VValueError ''Invalid non-modulo-8 length of APDU filter: 3''), decoded)
   \<and> ApduArDO_to_bytes h2b (VDict [(''generic_access_rule'', VStr ''sometimes'')])
     = Inr (VValueError ''Invalid 1-byte generic APDU access rule'')
   \<and> ApduArDO_to_bytes h2b (VDict []) = Inr (VValueError ''Invalid APDU AR DO'')
   \<and> ApduArDO_to_bytes h2b (VDict [(''apdu_filter'', VList [VDict [(''header'', VStr ''00a40400'')]])])
     = Inr (VValueError ''APDU filter must contain header and mask'')
   \<and> xceive_apdu_tlv (\<lambda>c. Inr (replicate 256 (0::byte))) b2h h2b send_apdu_checksw tp
        ''80e29000'' (Some c) resp_cls ''9000''
     = (Inr (RetValueError ''DO > 255 bytes not supported yet''), tp)"
  by (simp add: ApduArDO_from_bytes_def ApduArDO_to_bytes_def xceive_apdu_tlv_def
      dec_of_nat.simps hexdigit_def)

subsection \<open>GpCardKeyset.from\_single\_key\<close>

text \<open>
  C9 (the code departs from the claim). For every \<open>kvn\<close> and every \<open>base_key\<close> the
  call raises \<^verbatim>\<open>TypeError\<close> in the constructor's first \<^verbatim>\<open>assert\<close>; with assertions
  disabled it returns a key set whose \<open>kvn\<close> field is the type \<^verbatim>\<open>int\<close>. The three keys
  are \<open>base_key\<close>, the \<open>kvn\<close> field is never the given number.
\<close>

theorem GpCardKeyset_from_single_key_drops_kvn:
  "GpCardKeyset_from_single_key True k base_key = Inl TypeError
   \<and> GpCardKeyset_from_single_key False k base_key
     = Inr \<lparr>kvn = VType ''int'', enc = base_key, mac = base_key, dek = base_key\<rparr>"
  by (simp add: GpCardKeyset_from_single_key_def GpCardKeyset_init_def)

subsection \<open>ProfileTemplate.\_\_init\_subclass\_\_\<close>

lemma registry_add_keeps_dicts:
  "base_files_by_pename (snd (ProfileTemplateRegistry_add tpl st)) = base_files_by_pename st"
  "own_files_by_pename (snd (ProfileTemplateRegistry_add tpl st)) = own_files_by_pename st"
  by (simp_all add: ProfileTemplateRegistry_add_def Let_def)

lemma fold_setitem_shared:
  "own_files_by_pename st = Map.empty \<Longrightarrow>
   own_files_by_pename (fold (files_by_pename_setitem c) fs st) = Map.empty
   \<and> base_files_by_pename (fold (files_by_pename_setitem c) fs st)
       = fold (\<lambda>f. AList.update (pe_name f) f) fs (base_files_by_pename st)"
  by (induction fs arbitrary: st) (simp_all add: files_by_pename_setitem_def)

text \<open>
  No class statement binds a dict of its own, so every derived class stores its files
  into the one dict of the base class.
\<close>

lemma init_subclass_shared:
  assumes "own_files_by_pename st = Map.empty"
  shows "own_files_by_pename (snd (init_subclass cls st)) = Map.empty"
    and "base_files_by_pename (snd (init_subclass cls st))
         = fold (\<lambda>f. AList.update (pe_name f) f) (files cls) (base_files_by_pename st)"
  using fold_setitem_shared[OF assms, of "cls_name cls" "files cls"]
  by (simp_all add: init_subclass_def registry_add_keeps_dicts)

lemma map_of_fold_update_other:
  "\<forall>f \<in> set fs. pe_name f \<noteq> k \<Longrightarrow>
   map_of (fold (\<lambda>f. AList.update (pe_name f) f) fs d) k = map_of d k"
  by (induction fs arbitrary: d) (auto simp: update_conv')

lemma pe_name_init_None:
  "pe_name (FileTemplate_init a n t b c d e f g h i j None) = default_pe_name n"
  by (simp add: FileTemplate_init_def)

lemma default_pe_names:
  "default_pe_name ''DF.CD'' = ''df-cd''"
  "default_pe_name ''EF.LAUNCHPAD'' = ''ef-launchpad''"
  "default_pe_name ''EF.ICON'' = ''ef-icon''"
  "default_pe_name ''MF'' = ''mf''"
  "default_pe_name ''EF.PL'' = ''ef-pl''"
  "default_pe_name ''EF.ICCID'' = ''ef-iccid''"
  "default_pe_name ''EF.DIR'' = ''ef-dir''"
  "default_pe_name ''EF.ARR'' = ''ef-arr''"
  "default_pe_name ''EF.UMPC'' = ''ef-umpc''"
  by (simp_all add: default_pe_name_def str_lower_def str_replace_def lower_char_def)

lemma FilesAtMF_pe_names:
  "map pe_name (files (FilesAtMF oid_MF))
   = [''mf'', ''ef-pl'', ''ef-iccid'', ''ef-dir'', ''ef-arr'', ''ef-umpc'']"
  by (simp add: FilesAtMF_def pe_name_init_None default_pe_names)

text \<open>
  C10 (the code departs from the claim). Once the class statements of
  \<^verbatim>\<open>FilesAtMF\<close> and \<^verbatim>\<open>FilesCD\<close> have run, \<^verbatim>\<open>FilesAtMF.files_by_pename['df-cd']\<close> is the
  \<open>DF.CD\<close> file of \<^verbatim>\<open>FilesCD\<close>, although no file of \<^verbatim>\<open>FilesAtMF\<close> has that
  \<open>pe_name\<close>: the two classes read the same dict. This holds whatever the two OIDs are.
\<close>

theorem ProfileTemplate_files_by_pename_is_shared:
  "map_of (cls_files_by_pename (after_FilesAtMF_FilesCD oid_MF oid_DF_CD) ''FilesAtMF'') ''df-cd''
     = Some (FileTemplate_init (Some 0x7f11) ''DF.CD'' ''DF'' None None (Some 14) None None
               (Some False) (Some [''pinStatusTemplateDO'']) None False None)
   \<and> ''df-cd'' \<notin> set (map pe_name (files (FilesAtMF oid_MF)))
   \<and> cls_files_by_pename (after_FilesAtMF_FilesCD oid_MF oid_DF_CD) ''FilesAtMF''
     = cls_files_by_pename (after_FilesAtMF_FilesCD oid_MF oid_DF_CD) ''FilesCD''"
proof -
  let ?dfcd = "FileTemplate_init (Some 0x7f11) ''DF.CD'' ''DF'' None None (Some 14) None None
                 (Some False) (Some [''pinStatusTemplateDO'']) None False None"
  let ?st1 = "snd (init_subclass (FilesAtMF oid_MF) initial_classes)"
  let ?st2 = "after_FilesAtMF_FilesCD oid_MF oid_DF_CD"
  have e0: "own_files_by_pename initial_classes = Map.empty"
    by (simp add: initial_classes_def)
  have e1: "own_files_by_pename ?st1 = Map.empty"
    by (rule init_subclass_shared(1)[OF e0])
  have e2: "own_files_by_pename ?st2 = Map.empty"
    unfolding after_FilesAtMF_FilesCD_def by (rule init_subclass_shared(1)[OF e1])
  have b2: "base_files_by_pename ?st2
      = fold (\<lambda>f. AList.update (pe_name f) f) (files (FilesCD oid_DF_CD))
          (base_files_by_pename ?st1)"
    unfolding after_FilesAtMF_FilesCD_def by (rule init_subclass_shared(2)[OF e1])
  have files: "files (FilesCD oid_DF_CD) = ?dfcd # tl (files (FilesCD oid_DF_CD))"
    by (simp add: FilesCD_def)
  have rest: "\<forall>f \<in> set (tl (files (FilesCD oid_DF_CD))). pe_name f \<noteq> ''df-cd''"
    by (simp add: FilesCD_def pe_name_init_None default_pe_names image_iff)
  have pn: "pe_name ?dfcd = ''df-cd''"
    by (simp add: pe_name_init_None default_pe_names)
  have "map_of (fold (\<lambda>f. AList.update (pe_name f) f) (?dfcd # tl (files (FilesCD oid_DF_CD)))
           (base_files_by_pename ?st1)) ''df-cd'' = Some ?dfcd"
    using rest pn by (simp add: map_of_fold_update_other update_conv')
  with files b2 have "map_of (base_files_by_pename ?st2) ''df-cd'' = Some ?dfcd"
    by simp
  then have first: "map_of (cls_files_by_pename ?st2 ''FilesAtMF'') ''df-cd'' = Some ?dfcd"
    by (simp add: cls_files_by_pename_def e2)
  have second: "''df-cd'' \<notin> set (map pe_name (files (FilesAtMF oid_MF)))"
    by (simp only: FilesAtMF_pe_names) simp
  have third: "cls_files_by_pename ?st2 ''FilesAtMF'' = cls_files_by_pename ?st2 ''FilesCD''"
    by (simp add: cls_files_by_pename_def e2)
  from first second third show ?thesis by blast
qed

subsection \<open>The merged command set\<close>

lemma map_of_fold_update:
  "distinct (map fst later) \<Longrightarrow>
   map_of (fold (\<lambda>(k, d) acc. AList.update k d acc) later earlier) k
   = (case map_of later k of Some d \<Rightarrow> Some d | None \<Rightarrow> map_of earlier k)"
proof (induction later arbitrary: earlier)
  case Nil
  then show ?case by simp
next
  case (Cons e later)
  obtain k' d' where e: "e = (k', d')" by (cases e)
  from Cons.prems e have dist: "distinct (map fst later)" and notin: "k' \<notin> fst ` set later"
    by auto
  from notin have none: "map_of later k' = None"
    by (simp add: map_of_eq_None_iff)
  show ?case
    using Cons.IH[OF dist, of "AList.update k' d' earlier"] none
    by (auto simp: e update_conv' split: option.splits)
qed

text \<open>
  C4. In the merged command set \<^verbatim>\<open>UiccApduCommands + UsimApduCommands\<close>, a key that
  both tables define resolves to the descriptor of the later table
  (\<^verbatim>\<open>UsimApduCommands\<close>), and a key that only one table defines resolves to that table's
  descriptor. The later table is a dict, so its keys are distinct.
\<close>

theorem merged_registry_last_wins:
  assumes "distinct (map fst UsimApduCommands)"
  shows "(k \<in> fst ` set UiccApduCommands \<and> k \<in> fst ` set UsimApduCommands
            \<longrightarrow> resolve (ApduCommands UiccApduCommands UsimApduCommands) k
                = resolve UsimApduCommands k)
       \<and> (k \<notin> fst ` set UiccApduCommands \<and> k \<in> fst ` set UsimApduCommands
            \<longrightarrow> resolve (ApduCommands UiccApduCommands UsimApduCommands) k
                = resolve UsimApduCommands k)
       \<and> (k \<in> fst ` set UiccApduCommands \<and> k \<notin> fst ` set UsimApduCommands
            \<longrightarrow> resolve (ApduCommands UiccApduCommands UsimApduCommands) k
                = resolve UiccApduCommands k)"
proof -
  have m: "resolve (ApduCommands UiccApduCommands UsimApduCommands) k
           = (case map_of UsimApduCommands k of
                Some d \<Rightarrow> Some d
              | None \<Rightarrow> map_of UiccApduCommands k)"
    using map_of_fold_update[OF assms, of UiccApduCommands k]
    by (simp add: resolve_def ApduCommands_def merge_tables_def)
  show ?thesis
  proof (cases "map_of UsimApduCommands k")
    case None
    then have "k \<notin> fst ` set UsimApduCommands"
      by (simp add: map_of_eq_None_iff)
    with None m show ?thesis
      by (simp add: resolve_def)
  next
    case (Some d)
    then have "k \<in> fst ` set UsimApduCommands"
      by (metis map_of_eq_None_iff option.distinct(1))
    with Some m show ?thesis
      by (simp add: resolve_def)
  qed
qed

text \<open>
  The example of the spec: both tables define (CLA 0x00, INS 0xA4) with different
  descriptors; a key of the first table alone and a key of the second alone.
\<close>

theorem merged_registry_last_wins_witness:
  "distinct (map fst [((0x00::byte, 0xA4::byte), ''UsimSelect''), ((0x00, 0x88), ''UsimAuthenticate'')])
   \<and> resolve (ApduCommands [((0x00, 0xA4), ''UiccSelect''), ((0x80, 0xF2), ''UiccStatus'')]
                 [((0x00, 0xA4), ''UsimSelect''), ((0x00, 0x88), ''UsimAuthenticate'')]) (0x00, 0xA4)
       = Some ''UsimSelect''
   \<and> resolve (ApduCommands [((0x00, 0xA4), ''UiccSelect''), ((0x80, 0xF2), ''UiccStatus'')]
                 [((0x00, 0xA4), ''UsimSelect''), ((0x00, 0x88), ''UsimAuthenticate'')]) (0x80, 0xF2)
       = Some ''UiccStatus''
   \<and> resolve (ApduCommands [((0x00, 0xA4), ''UiccSelect''), ((0x80, 0xF2), ''UiccStatus'')]
                 [((0x00, 0xA4), ''UsimSelect''), ((0x00, 0x88), ''UsimAuthenticate'')]) (0x00, 0x88)
       = Some ''UsimAuthenticate''"
proof -
  let ?uicc = "[((0x00::byte, 0xA4::byte), ''UiccSelect''), ((0x80, 0xF2), ''UiccStatus'')]"
  let ?usim = "[((0x00::byte, 0xA4::byte), ''UsimSelect''), ((0x00, 0x88), ''UsimAuthenticate'')]"
  have d: "distinct (map fst ?usim)" by simp
  have a: "resolve (ApduCommands ?uicc ?usim) (0x00, 0xA4) = Some ''UsimSelect''"
    using merged_registry_last_wins[OF d, of "(0x00, 0xA4)" ?uicc] by (simp add: resolve_def)
  have b: "resolve (ApduCommands ?uicc ?usim) (0x80, 0xF2) = Some ''UiccStatus''"
    using merged_registry_last_wins[OF d, of "(0x80, 0xF2)" ?uicc] by (simp add: resolve_def)
  have c: "resolve (ApduCommands ?uicc ?usim) (0x00, 0x88) = Some ''UsimAuthenticate''"
    using merged_registry_last_wins[OF d, of "(0x00, 0x88)" ?uicc] by (simp add: resolve_def)
  from d a b c show ?thesis by blast
qed

subsection \<open>Tracer.main\<close>

lemma main_body_source: "source (body_tracer (main_body co t ev)) = source t"
  by (auto simp: main_body_def body_tracer_def log_call_def Let_def
           split: event.splits sum.splits prod.splits)

lemma main_body_CardReset:
  "main_body co t CardReset
   = Inr (t\<lparr>rs := rs_reset co (rs t), calls := calls t @ [Call_rs_reset, Call_format_reset]\<rparr>)"
  by (simp add: main_body_def log_call_def Let_def)

lemma new_calls_CardReset: "new_calls co t CardReset = [Call_rs_reset, Call_format_reset]"
  by (simp add: new_calls_def main_body_CardReset body_tracer_def)

lemma new_calls_ApduEvent:
  "take 1 (new_calls co t (ApduEvent apdu)) = [Call_ad_input apdu]"
  "ad_input co apdu = Inr inst
   \<Longrightarrow> take 2 (new_calls co t (ApduEvent apdu)) = [Call_ad_input apdu, Call_process inst]"
  by (auto simp: new_calls_def main_body_def body_tracer_def log_call_def Let_def
           split: sum.splits prod.splits)

text \<open>
  Over a recorded list of events the loop runs the body once per event, in order, until
  a collaborator raises or the list is at its end: \<^verbatim>\<open>main\<close> returns for every finite
  recording.
\<close>

lemma Tracer_main_script:
  "source_read co = script_read \<Longrightarrow> source t = evs
   \<Longrightarrow> Tracer_main co t = Some (run_events co t evs)"
proof (induction evs arbitrary: t)
  case Nil
  then show ?case
    by (subst Tracer_main.simps) (simp add: script_read_def)
next
  case (Cons ev rest)
  show ?case
  proof (cases "main_body co (t\<lparr>source := rest\<rparr>) ev")
    case (Inl r)
    with Cons.prems show ?thesis
      by (subst Tracer_main.simps) (simp add: script_read_def)
  next
    case (Inr t')
    have "source t' = rest"
      using main_body_source[of co "t\<lparr>source := rest\<rparr>" ev] Inr by (simp add: body_tracer_def)
    from Cons.IH[OF Cons.prems(1) this] Inr Cons.prems show ?thesis
      by (subst Tracer_main.simps) (simp add: script_read_def)
  qed
qed

text \<open>
  C6. Whenever the source yields an event \<open>ev\<close> in \<^verbatim>\<open>Tracer.main\<close>: if \<open>ev\<close> is a
  \<^verbatim>\<open>CardReset\<close>, the loop goes on with the whole runtime state replaced by its reset
  (with the reset of the spec: every logical channel \<open>Unselected\<close>), and the only calls
  made for the event are \<^verbatim>\<open>rs.reset()\<close> and \<^verbatim>\<open>format_reset\<close>, so neither the
  instruction look-up nor \<^verbatim>\<open>process\<close>. A look-up or a \<^verbatim>\<open>process\<close> call is made only
  for an APDU event: for such an event the look-up comes first, and \<^verbatim>\<open>process\<close> follows
  on the command it returned.
\<close>

theorem Tracer_main_card_reset:
  fixes co :: "(RuntimeState, 'src, 'apdu, 'inst) collaborators"
  assumes "source_read co (source t) = (Inr ev, src')"
  shows "(ev = CardReset \<longrightarrow>
            Tracer_main co t
              = Tracer_main co (t\<lparr>source := src', rs := rs_reset co (rs t),
                                  calls := calls t @ [Call_rs_reset, Call_format_reset]\<rparr>)
            \<and> new_calls co (t\<lparr>source := src'\<rparr>) ev = [Call_rs_reset, Call_format_reset]
            \<and> (rs_reset co = RuntimeState_reset \<longrightarrow>
                 (\<forall>lchan_nr. rs (body_tracer (main_body co (t\<lparr>source := src'\<rparr>) ev)) lchan_nr
                              = Unselected)))
       \<and> ((\<exists>c \<in> set (new_calls co (t\<lparr>source := src'\<rparr>) ev). is_lookup_or_process c)
            \<longrightarrow> (\<exists>apdu. ev = ApduEvent apdu))
       \<and> (\<forall>apdu. ev = ApduEvent apdu \<longrightarrow>
             take 1 (new_calls co (t\<lparr>source := src'\<rparr>) ev) = [Call_ad_input apdu])
       \<and> (\<forall>apdu inst. ev = ApduEvent apdu \<and> ad_input co apdu = Inr inst \<longrightarrow>
             take 2 (new_calls co (t\<lparr>source := src'\<rparr>) ev)
               = [Call_ad_input apdu, Call_process inst])"
proof -
  have loop: "Tracer_main co t
              = Tracer_main co (t\<lparr>source := src', rs := rs_reset co (rs t),
                                  calls := calls t @ [Call_rs_reset, Call_format_reset]\<rparr>)"
    if "ev = CardReset"
    using assms that by (subst Tracer_main.simps) (simp add: main_body_CardReset)
  have cleared: "rs (body_tracer (main_body co (t\<lparr>source := src'\<rparr>) ev)) lchan_nr = Unselected"
    if "ev = CardReset" and "rs_reset co = RuntimeState_reset" for lchan_nr
    using that by (simp add: main_body_CardReset body_tracer_def RuntimeState_reset_def)
  have only_apdu: "\<exists>apdu. ev = ApduEvent apdu"
    if "\<exists>c \<in> set (new_calls co (t\<lparr>source := src'\<rparr>) ev). is_lookup_or_process c"
    using that by (cases ev) (simp_all add: new_calls_CardReset)
  have reset_calls: "new_calls co (t\<lparr>source := src'\<rparr>) ev = [Call_rs_reset, Call_format_reset]"
    if "ev = CardReset"
    using that by (simp only: new_calls_CardReset)
  have lookup_first: "take 1 (new_calls co (t\<lparr>source := src'\<rparr>) ev) = [Call_ad_input apdu]"
    if "ev = ApduEvent apdu" for apdu
    using that by (simp only: new_calls_ApduEvent(1))
  have then_process: "take 2 (new_calls co (t\<lparr>source := src'\<rparr>) ev)
                        = [Call_ad_input apdu, Call_process inst]"
    if "ev = ApduEvent apdu \<and> ad_input co apdu = Inr inst" for apdu inst
    using that new_calls_ApduEvent(2)[of co apdu inst "t\<lparr>source := src'\<rparr>"] by blast
  from loop cleared only_apdu reset_calls lookup_first then_process show ?thesis
    by blast
qed

theorem Tracer_main_card_reset_witness:
  "source_read replay_collaborators (source (replay_tracer [CardReset])) = (Inr CardReset, [])
   \<and> rs_reset replay_collaborators = RuntimeState_reset
   \<and> new_calls replay_collaborators ((replay_tracer [CardReset])\<lparr>source := []\<rparr>) CardReset
       = [Call_rs_reset, Call_format_reset]
   \<and> rs (body_tracer (main_body replay_collaborators
            ((replay_tracer [CardReset])\<lparr>source := []\<rparr>) CardReset)) 0 = Unselected
   \<and> source_read replay_collaborators (source (replay_tracer [ApduEvent ''00a40004023f00'']))
       = (Inr (ApduEvent ''00a40004023f00''), [])
   \<and> ad_input replay_collaborators ''00a40004023f00'' = Inr ''00a40004023f00''
   \<and> take 2 (new_calls replay_collaborators
                ((replay_tracer [ApduEvent ''00a40004023f00''])\<lparr>source := []\<rparr>)
                (ApduEvent ''00a40004023f00''))
       = [Call_ad_input ''00a40004023f00'', Call_process ''00a40004023f00'']"
proof -
  have r1: "source_read replay_collaborators (source (replay_tracer [CardReset]))
            = (Inr CardReset, [])"
    by (simp add: replay_collaborators_def replay_tracer_def script_read_def)
  have r2: "rs_reset replay_collaborators = RuntimeState_reset"
    by (simp add: replay_collaborators_def)
  have a1: "source_read replay_collaborators (source (replay_tracer [ApduEvent ''00a40004023f00'']))
            = (Inr (ApduEvent ''00a40004023f00''), [])"
    by (simp add: replay_collaborators_def replay_tracer_def script_read_def)
  have a2: "ad_input replay_collaborators ''00a40004023f00'' = Inr ''00a40004023f00''"
    by (simp add: replay_collaborators_def)
  from Tracer_main_card_reset[OF r1] r2
  have "new_calls replay_collaborators ((replay_tracer [CardReset])\<lparr>source := []\<rparr>) CardReset
          = [Call_rs_reset, Call_format_reset]"
    and "rs (body_tracer (main_body replay_collaborators
            ((replay_tracer [CardReset])\<lparr>source := []\<rparr>) CardReset)) 0 = Unselected"
    by blast+
  moreover from Tracer_main_card_reset[OF a1] a2
  have "take 2 (new_calls replay_collaborators
                ((replay_tracer [ApduEvent ''00a40004023f00''])\<lparr>source := []\<rparr>)
                (ApduEvent ''00a40004023f00''))
       = [Call_ad_input ''00a40004023f00'', Call_process ''00a40004023f00'']"
    by blast
  ultimately show ?thesis using r1 r2 a1 a2 by blast
qed

subsection \<open>KeyInformationData\<close>

text \<open>
  C7. Decoding the bytes \<open>c0 04 01 70 80 10\<close> under the KeyInformationData descriptor
  (tag 0xc0) yields key\_identifier 1, key\_version\_number 112 and the one key type
  (type des, length 16), with no bytes left over; encoding that value under the same
  descriptor gives the same six bytes.
\<close>

theorem KeyInformationData_example:
  "KeyInformationData_from_tlv [0xc0, 0x04, 0x01, 0x70, 0x80, 0x10]
     = Inr (\<lparr>key_identifier = 1, key_version_number = 112,
             key_types = [\<lparr>key_type = EnumName ''des'', key_length = 16\<rparr>]\<rparr>, [])
   \<and> KeyInformationData_to_tlv \<lparr>key_identifier = 1, key_version_number = 112,
             key_types = [\<lparr>key_type = EnumName ''des'', key_length = 16\<rparr>]\<rparr>
     = Inr [0xc0, 0x04, 0x01, 0x70, 0x80, 0x10]"
  by (simp add: KeyInformationData_from_tlv_def KeyInformationData_to_tlv_def tlv_decode_one_def
      tlv_encode_one_def bertlv_parse_tag_def bertlv_parse_len_def bertlv_encode_tag_def
      bertlv_encode_len_def be_bytes.simps KeyInformationData_parse_def KeyInformationData_build_def
      KeyTypeLen_build_def Byte_build_def Enum_parse_def Enum_build_def KeyType_def)

subsection \<open>GET STATUS\<close>

text \<open>The inner loop decodes a back-to-back sequence and appends it to the list.\<close>

lemma decode_grd_list_sequence:
  "tlv_sequence from_tlv buf grds
   \<Longrightarrow> decode_grd_list from_tlv buf grd_list = Some (Inr (grd_list @ grds))"
proof (induction arbitrary: grd_list rule: tlv_sequence.induct)
  case seq_end
  show ?case by (subst decode_grd_list.simps) simp
next
  case (seq_next buf grd leftover grds)
  show ?case
    using seq_next.hyps(1,2) seq_next.IH[of "grd_list @ [grd]"]
    by (subst decode_grd_list.simps) simp
qed

text \<open>
  The outer loop against a recorded card: responses with status word 6310, then one
  with another status word.
\<close>

lemma get_status_loop_script:
  assumes "\<forall>r \<in> set pre. snd r = ''6310''"
    and "sw \<noteq> ''6310''"
    and "list_all2 (\<lambda>r grds. \<exists>buf. h2b (fst r) = Inr buf \<and> tlv_sequence from_tlv buf grds)
           (pre @ [(data, sw)]) grdss"
  shows "get_status_loop scripted_send b2h h2b from_tlv subset_hex cmd_data
           (pre @ (data, sw) # rest, sent) p2 grd_list
         = Some (Inr (grd_list @ concat grdss),
                 (rest, sent @ (get_status_hdr subset_hex p2 (length cmd_data) @ b2h cmd_data)
                          # replicate (length pre)
                              (get_status_hdr subset_hex (p2 OR 0x01) (length cmd_data)
                                 @ b2h cmd_data)))"
  using assms
proof (induction pre arbitrary: sent p2 grd_list grdss)
  case Nil
  from Nil.prems(3) obtain grds buf where g: "grdss = [grds]" "h2b data = Inr buf"
      "tlv_sequence from_tlv buf grds"
    by (auto simp: list_all2_Cons1)
  show ?case
    using Nil.prems(2) g decode_grd_list_sequence[OF g(3), of grd_list]
    by (subst get_status_loop.simps) (simp add: scripted_send_def)
next
  case (Cons r pre)
  obtain d where r: "r = (d, ''6310'')" using Cons.prems(1) by (cases r) auto
  from Cons.prems(3) obtain grds grdss' buf where g: "grdss = grds # grdss'" "h2b d = Inr buf"
      "tlv_sequence from_tlv buf grds"
      "list_all2 (\<lambda>r grds. \<exists>buf. h2b (fst r) = Inr buf \<and> tlv_sequence from_tlv buf grds)
           (pre @ [(data, sw)]) grdss'"
    by (auto simp: list_all2_Cons1 r)
  have pre: "\<forall>r \<in> set pre. snd r = ''6310''" using Cons.prems(1) by simp
  have idem: "(p2 OR 0x01) OR 0x01 = p2 OR (0x01::nat)"
    by (simp add: or.assoc)
  let ?a = "get_status_hdr subset_hex p2 (length cmd_data) @ b2h cmd_data"
  have step: "get_status_loop scripted_send b2h h2b from_tlv subset_hex cmd_data
           ((r # pre) @ (data, sw) # rest, sent) p2 grd_list
        = get_status_loop scripted_send b2h h2b from_tlv subset_hex cmd_data
           (pre @ (data, sw) # rest, sent @ [?a]) (p2 OR 0x01) (grd_list @ grds)"
    using g(2) decode_grd_list_sequence[OF g(3), of grd_list]
    by (subst get_status_loop.simps) (simp add: scripted_send_def r)
  show ?case
    unfolding step
    using Cons.IH[OF pre Cons.prems(2) g(4), of "sent @ [?a]" "p2 OR 0x01" "grd_list @ grds"]
    by (simp add: idem g(1) replicate_app_Cons_same)
qed

lemma fmt_02x_p2: "fmt_02x 0x02 = ''02''" "fmt_02x 0x03 = ''03''" "(0x02::nat) OR 0x01 = 0x03"
  by (simp_all add: fmt_02x_def hex_of_nat.simps hexdigit_def)

text \<open>
  C5. Let the card answer GET STATUS with any number of responses of status word
  \<open>6310\<close> (\<open>pre\<close>) and then one of another status word, each a back-to-back sequence
  of TLV elements as \<^verbatim>\<open>from_tlv\<close> and its leftover bytes split it. Then
  \<^verbatim>\<open>get_status\<close> returns the elements of all these responses, concatenated in the
  order met. It sends the command once with P2 = 02 and once more, with the continuation
  bit set (P2 = 03), for each response of status word \<open>6310\<close>, and nothing after the
  first other status word: the responses behind it stay unread.
\<close>

theorem get_status_continuation:
  assumes "Enum_build StatusSubset (EnumName subset_name) = Inr v"
    and "Byte_build v = Inr sb"
    and "aid_to_tlv aid_search_qualifier = Inr aid_tlv"
    and "h2b ''5c054f9f70c5cc'' = Inr tail"
    and "\<forall>r \<in> set pre. snd r = ''6310''"
    and "sw \<noteq> ''6310''"
    and "list_all2 (\<lambda>r grds. \<exists>buf. h2b (fst r) = Inr buf \<and> tlv_sequence from_tlv buf grds)
           (pre @ [(data, sw)]) grdss"
  shows "get_status scripted_send b2h h2b aid_to_tlv from_tlv (pre @ (data, sw) # rest, sent)
           subset_name aid_search_qualifier
         = Some (Inr (concat grdss),
                 (rest,
                  sent @ (''80F2'' @ b2h sb @ ''02'' @ fmt_02x (length (aid_tlv @ tail))
                            @ b2h (aid_tlv @ tail))
                       # replicate (length pre)
                           (''80F2'' @ b2h sb @ ''03'' @ fmt_02x (length (aid_tlv @ tail))
                              @ b2h (aid_tlv @ tail))))"
  using get_status_loop_script[OF assms(5,6,7), of b2h "b2h sb" "aid_tlv @ tail" rest sent
          "0x02" "[]"]
  by (simp add: get_status_def assms(1-4) get_status_hdr_def fmt_02x_p2)

lemma raw_from_tlv_e3:
  "raw_from_tlv (0xe3 # 0x03 # a # b # c # rest) = Inr ([a, b, c], rest)"
  by (simp add: raw_from_tlv_def tlv_decode_one_def bertlv_parse_tag_def bertlv_parse_len_def)

text \<open>
  A card with three recorded responses: two elements with status word 6310, one element
  with 9000, and one more response that is never asked for.
\<close>

theorem get_status_continuation_witness:
  "get_status scripted_send hex_encode hex_decode (\<lambda>aid. Inr [0x4f, 0x00]) raw_from_tlv
     ([(''e3034f01a0e3034f01a1'', ''6310''), (''e3034f01a2'', ''9000''),
       (''e3034f01a3'', ''9000'')], [])
     ''applications'' []
   = Some (Inr [[0x4f, 0x01, 0xa0], [0x4f, 0x01, 0xa1], [0x4f, 0x01, 0xa2]],
           ([(''e3034f01a3'', ''9000'')],
            [''80F24002094f005c054f9f70c5cc'', ''80F24003094f005c054f9f70c5cc'']))"
proof -
  have h1: "Enum_build StatusSubset (EnumName ''applications'') = Inr 0x40"
    by (simp add: Enum_build_def StatusSubset_def)
  have h2: "Byte_build 0x40 = Inr [0x40]"
    by (simp add: Byte_build_def)
  have h3: "(\<lambda>aid::string. (Inr [0x4f, 0x00] :: exn + byte list)) [] = Inr [0x4f, 0x00]"
    by simp
  have h4: "hex_decode ''5c054f9f70c5cc'' = Inr [0x5c, 0x05, 0x4f, 0x9f, 0x70, 0xc5, 0xcc]"
    by (simp add: hexval_def)
  have h5: "\<forall>r \<in> set [(''e3034f01a0e3034f01a1'', ''6310'')]. snd r = ''6310''"
    by simp
  have h6: "''9000'' \<noteq> ''6310''"
    by simp
  have d1: "hex_decode ''e3034f01a0e3034f01a1''
            = Inr [0xe3, 0x03, 0x4f, 0x01, 0xa0, 0xe3, 0x03, 0x4f, 0x01, 0xa1]"
    by (simp add: hexval_def)
  have d2: "hex_decode ''e3034f01a2'' = Inr [0xe3, 0x03, 0x4f, 0x01, 0xa2]"
    by (simp add: hexval_def)
  have s0: "tlv_sequence raw_from_tlv [0xe3, 0x03, 0x4f, 0x01, 0xa1] [[0x4f, 0x01, 0xa1]]"
    by (rule seq_next[where leftover = "[]"]) (simp_all add: raw_from_tlv_e3 seq_end)
  have s1: "tlv_sequence raw_from_tlv [0xe3, 0x03, 0x4f, 0x01, 0xa0, 0xe3, 0x03, 0x4f, 0x01, 0xa1]
              [[0x4f, 0x01, 0xa0], [0x4f, 0x01, 0xa1]]"
    by (rule seq_next[where leftover = "[0xe3, 0x03, 0x4f, 0x01, 0xa1]"])
       (simp_all add: raw_from_tlv_e3 s0)
  have s2: "tlv_sequence raw_from_tlv [0xe3, 0x03, 0x4f, 0x01, 0xa2] [[0x4f, 0x01, 0xa2]]"
    by (rule seq_next[where leftover = "[]"]) (simp_all add: raw_from_tlv_e3 seq_end)
  have h7: "list_all2
              (\<lambda>r grds. \<exists>buf. hex_decode (fst r) = Inr buf \<and> tlv_sequence raw_from_tlv buf grds)
              ([(''e3034f01a0e3034f01a1'', ''6310'')] @ [(''e3034f01a2'', ''9000'')])
              [[[0x4f, 0x01, 0xa0], [0x4f, 0x01, 0xa1]], [[0x4f, 0x01, 0xa2]]]"
    using d1 d2 s1 s2 by simp
  have e: "hex_encode [0x40] = ''40''"
     "hex_encode ([0x4f, 0x00] @ [0x5c, 0x05, 0x4f, 0x9f, 0x70, 0xc5, 0xcc]) = ''4f005c054f9f70c5cc''"
     "fmt_02x (length ([0x4f, 0x00] @ [0x5c, 0x05, 0x4f, 0x9f, 0x70, 0xc5, 0xcc :: byte])) = ''09''"
    by (simp_all add: hex_encode_def hexdigit_def fmt_02x_def hex_of_nat.simps)
  have "get_status scripted_send hex_encode hex_decode (\<lambda>aid. Inr [0x4f, 0x00]) raw_from_tlv
          ([(''e3034f01a0e3034f01a1'', ''6310'')] @ (''e3034f01a2'', ''9000'')
             # [(''e3034f01a3'', ''9000'')], [])
          ''applications'' []
        = Some (Inr (concat [[[0x4f, 0x01, 0xa0], [0x4f, 0x01, 0xa1]], [[0x4f, 0x01, 0xa2]]]),
                ([(''e3034f01a3'', ''9000'')],
                 [] @ (''80F2'' @ ''40'' @ ''02'' @ ''09'' @ ''4f005c054f9f70c5cc'')
                      # replicate (length [(''e3034f01a0e3034f01a1'', ''6310'')])
                          (''80F2'' @ ''40'' @ ''03'' @ ''09'' @ ''4f005c054f9f70c5cc'')))"
    using get_status_continuation[OF h1 h2 h3 h4 h5 h6 h7, of hex_encode
            "[(''e3034f01a3'', ''9000'')]" "[]"]
    by (simp only: e)
  then show ?thesis
    by simp
qed

end
